theory Spec2Isabelle
  imports Complex_Main "HOL-Library.AList" "HOL-Library.Monad_Syntax"
begin

section \<open>Python values\<close>

text \<open>
  The exchange and the inference service hand back parsed JSON, and the program reads it
  with Python's dynamic operations (\<^verbatim>\<open>dict.get\<close>, \<^verbatim>\<open>or\<close>, \<^verbatim>\<open>float()\<close>, truthiness).
  A value is one of the JSON shapes. Numbers are real numbers: Python's \<^verbatim>\<open>int\<close> and
  the finite values of \<^verbatim>\<open>float\<close> are both \<open>PNum\<close>, rounding is not modelled, and the
  non-finite floats do not occur as inputs. A dictionary is the list of its items in
  insertion order; its keys are strings and pairwise distinct, as in a Python dict.
  Strings are byte strings; the program only searches them for the ASCII braces.
\<close>

datatype pyval =
    PNone
  | PBool bool
  | PNum real
  | PStr string
  | PList "pyval list"
  | PDict "(string \<times> pyval) list"

type_synonym pydict = "(string \<times> pyval) list"

datatype py_error = KeyError | ZeroDivisionError

text \<open>Truthiness, as \<^verbatim>\<open>if x:\<close>, \<^verbatim>\<open>not x\<close> and \<^verbatim>\<open>x or y\<close> test it.\<close>

fun truthy :: "pyval \<Rightarrow> bool" where
  "truthy PNone = False"
| "truthy (PBool b) = b"
| "truthy (PNum x) = (x \<noteq> 0)"
| "truthy (PStr s) = (s \<noteq> [])"
| "truthy (PList xs) = (xs \<noteq> [])"
| "truthy (PDict kvs) = (kvs \<noteq> [])"

text \<open>\<^verbatim>\<open>a or b\<close>: the first operand when it is truthy, the second otherwise.\<close>

definition py_or :: "pyval \<Rightarrow> pyval \<Rightarrow> pyval" where
  "py_or a b = (if truthy a then a else b)"

text \<open>\<^verbatim>\<open>d.get(k)\<close> and \<^verbatim>\<open>d.get(k, default)\<close>.\<close>

definition py_get :: "pydict \<Rightarrow> string \<Rightarrow> pyval" where
  "py_get d k = (case map_of d k of None \<Rightarrow> PNone | Some v \<Rightarrow> v)"

definition py_get_default :: "pydict \<Rightarrow> string \<Rightarrow> pyval \<Rightarrow> pyval" where
  "py_get_default d k dflt = (case map_of d k of None \<Rightarrow> dflt | Some v \<Rightarrow> v)"

text \<open>
  The elements a \<^verbatim>\<open>for\<close> loop draws from a value: the items of a list, the characters
  of a string, the keys of a dict. Anything else raises \<^verbatim>\<open>TypeError\<close> (\<open>None\<close>).
\<close>

fun py_iter :: "pyval \<Rightarrow> pyval list option" where
  "py_iter (PList xs) = Some xs"
| "py_iter (PStr s) = Some (map (\<lambda>c. PStr [c]) s)"
| "py_iter (PDict kvs) = Some (map (\<lambda>kv. PStr (fst kv)) kvs)"
| "py_iter _ = None"

text \<open>\<^verbatim>\<open>x[i]\<close> for a literal index \<open>i \<ge> 0\<close>; \<open>None\<close> is any of the exceptions it raises.\<close>

fun py_index :: "pyval \<Rightarrow> nat \<Rightarrow> pyval option" where
  "py_index (PList xs) i = (if i < length xs then Some (xs ! i) else None)"
| "py_index (PStr s) i = (if i < length s then Some (PStr [s ! i]) else None)"
| "py_index _ i = None"

text \<open>
  The standard library's text conversions are parameters of the model: \<open>float_of_str s\<close>
  is \<^verbatim>\<open>float(s)\<close> and \<open>int_of_str s\<close> is \<^verbatim>\<open>int(s)\<close> on a string, \<open>json_loads s\<close> is
  \<^verbatim>\<open>json.loads(s)\<close>, and \<open>to_datetime_ok t\<close> says that pandas can turn the
  millisecond count \<open>t\<close> into a timestamp. \<open>None\<close> (or \<open>False\<close>) means the call raises.
\<close>

record pylib =
  float_of_str :: "string \<Rightarrow> real option"
  int_of_str :: "string \<Rightarrow> int option"
  json_loads :: "string \<Rightarrow> pyval option"
  to_datetime_ok :: "int \<Rightarrow> bool"

text \<open>\<^verbatim>\<open>float(x)\<close>; \<open>None\<close> is \<^verbatim>\<open>TypeError\<close> or \<^verbatim>\<open>ValueError\<close>.\<close>

fun pyfloat :: "pylib \<Rightarrow> pyval \<Rightarrow> real option" where
  "pyfloat lib (PNum x) = Some x"
| "pyfloat lib (PStr s) = float_of_str lib s"
| "pyfloat lib (PBool b) = Some (if b then 1 else 0)"
| "pyfloat lib _ = None"

text \<open>\<^verbatim>\<open>int(x)\<close>: a number is truncated towards zero.\<close>

fun pyint :: "pylib \<Rightarrow> pyval \<Rightarrow> int option" where
  "pyint lib (PNum x) = Some (if 0 \<le> x then \<lfloor>x\<rfloor> else \<lceil>x\<rceil>)"
| "pyint lib (PStr s) = int_of_str lib s"
| "pyint lib (PBool b) = Some (if b then 1 else 0)"
| "pyint lib _ = None"

section \<open>Configuration and the exchange collaborator\<close>

text \<open>\<^verbatim>\<open>trading_config\<close>, the module-level dictionary of settings.\<close>

record config =
  symbol :: string
  amount :: real
  leverage :: int
  cfg_timeframe :: string
  test_mode :: bool
  base_usdt_amount :: real
  refresh_interval :: real

text \<open>One market order as \<^verbatim>\<open>create_market_order_safe\<close> sends it. The key
  \<^verbatim>\<open>reduceOnly\<close> is present (and true) in the request exactly when \<open>reduceOnly\<close> holds; the
  size is sent as \<^verbatim>\<open>str(size)\<close>.\<close>

record order =
  instId :: string
  tdMode :: string
  o_side :: string
  ordType :: string
  sz :: real
  reduceOnly :: bool

text \<open>
  The exchange client answers each REST call with a parsed JSON value, or the call raises
  (\<open>None\<close>). The module-level \<^verbatim>\<open>exchange\<close> is \<^verbatim>\<open>None\<close> when its construction failed.
\<close>

record exchange =
  public_get_market_candles :: "pyval option"
  private_get_account_positions :: "pyval option"
  private_get_account_balance :: "pyval option"
  private_post_trade_order :: "order \<Rightarrow> pyval option"

section \<open>Position Oracle: \<^verbatim>\<open>get_current_position\<close>\<close>

record position =
  side :: string
  psize :: real
  entry_price :: real
  mark_price :: real
  unrealized_pnl :: real
  position_amt :: real
  pos_symbol :: string
  pos_leverage :: real
  initial_margin :: real
  maint_margin :: real
  maint_margin_ratio :: real
  liquidation_price :: real
  total_balance :: real
  free_balance :: real

text \<open>
  The function returns one of two dictionaries: the full position, or only the two
  balances when no position is open (\<open>AccountInfoOnly total_balance free_balance\<close>).
  Its \<^verbatim>\<open>None\<close> (any exception inside) is \<open>None\<close> here.
\<close>

datatype position_info =
    OpenPosition position
  | AccountInfoOnly real real

text \<open>Lines 568 to 577: the two balances of the USDT entry of \<^verbatim>\<open>details\<close>.\<close>

definition detail_balances :: "pylib \<Rightarrow> pydict \<Rightarrow> (real \<times> real) option" where
  "detail_balances lib detail =
     (let avail_bal = py_or (py_or (py_get detail ''availBal'') (py_get detail ''availEq''))
                            (py_get detail ''eq'');
          total_bal = py_or (py_or (py_get detail ''bal'') (py_get detail ''eq''))
                            (py_get detail ''frozenBal'')
      in case (if avail_bal \<noteq> PNone then pyfloat lib avail_bal
               else pyfloat lib (py_get_default detail ''availBal'' (PNum 0))) of
           None \<Rightarrow> None
         | Some fb \<Rightarrow>
             (case (if total_bal \<noteq> PNone then pyfloat lib total_bal
                    else pyfloat lib (py_get_default detail ''bal'' (PNum 0))) of
                None \<Rightarrow> None
              | Some tb \<Rightarrow> Some (fb, tb)))"

text \<open>Lines 564 to 578: the loop over \<^verbatim>\<open>details\<close> stops at the first USDT entry; the
  result is \<open>(free_balance, total_balance)\<close>, both 0 when there is none.\<close>

fun scan_details :: "pylib \<Rightarrow> pyval list \<Rightarrow> (real \<times> real) option" where
  "scan_details lib [] = Some (0, 0)"
| "scan_details lib (PDict detail # rest) =
     (if py_get detail ''ccy'' = PStr ''USDT'' then detail_balances lib detail
      else scan_details lib rest)"
| "scan_details lib (_ # rest) = None"

text \<open>Lines 557 to 588: the balance request and the account-level fall-backs.\<close>

definition account_balances :: "pylib \<Rightarrow> pyval option \<Rightarrow> (real \<times> real) option" where
  "account_balances lib reply =
     (case reply of
        Some (PDict balance_response) \<Rightarrow>
          (case map_of balance_response ''data'' of
             Some (PList (PDict account_data # _)) \<Rightarrow>
               (case py_iter (py_get_default account_data ''details'' (PList [])) of
                  None \<Rightarrow> None
                | Some details \<Rightarrow>
                    (case scan_details lib details of
                       None \<Rightarrow> None
                     | Some (fb0, tb0) \<Rightarrow>
                         (case (if fb0 = 0 \<and> truthy (py_get account_data ''availEq'')
                                then pyfloat lib (py_get account_data ''availEq'')
                                else Some fb0) of
                            None \<Rightarrow> None
                          | Some fb \<Rightarrow>
                              (case (if tb0 = 0 \<and> truthy (py_get account_data ''eqUsd'')
                                     then pyfloat lib (py_get account_data ''eqUsd'')
                                     else Some tb0) of
                                 None \<Rightarrow> None
                               | Some tb \<Rightarrow> Some (fb, tb)))))
           | _ \<Rightarrow> None)
      | _ \<Rightarrow> None)"

text \<open>Lines 604 to 636: the dictionary built for an open position of signed quantity \<open>pos\<close>.\<close>

definition build_position ::
  "pylib \<Rightarrow> config \<Rightarrow> real \<Rightarrow> real \<Rightarrow> pydict \<Rightarrow> real \<Rightarrow> position option" where
  "build_position lib cfg fb tb pos_data pos =
     (case pyfloat lib (py_get_default pos_data ''avgPx'' (PNum 0)) of
        None \<Rightarrow> None
      | Some entry \<Rightarrow>
     (case pyfloat lib (py_get_default pos_data ''upl'' (PNum 0)) of
        None \<Rightarrow> None
      | Some upl \<Rightarrow>
     (case pyfloat lib (py_get_default pos_data ''lever'' (PNum (of_int (leverage cfg)))) of
        None \<Rightarrow> None
      | Some lev \<Rightarrow>
     (case pyfloat lib (py_get_default pos_data ''markPx'' (PNum entry)) of
        None \<Rightarrow> None
      | Some mark \<Rightarrow>
     (case pyfloat lib (py_get_default pos_data ''imr'' (PNum 0)) of
        None \<Rightarrow> None
      | Some imr \<Rightarrow>
     (case pyfloat lib (py_get_default pos_data ''mmr'' (PNum 0)) of
        None \<Rightarrow> None
      | Some mmr \<Rightarrow>
     (case pyfloat lib (py_get_default pos_data ''liqPx'' (PNum 0)) of
        None \<Rightarrow> None
      | Some liq \<Rightarrow>
     (case pyfloat lib (py_get_default pos_data ''mgnRatio'' (PNum 0)) of
        None \<Rightarrow> None
      | Some ratio \<Rightarrow>
          Some \<lparr> side = (if pos > 0 then ''long'' else ''short''),
                 psize = \<bar>pos\<bar>,
                 entry_price = entry,
                 mark_price = mark,
                 unrealized_pnl = upl,
                 position_amt = pos,
                 pos_symbol = ''BTC/USDT:USDT'',
                 pos_leverage = lev,
                 initial_margin = imr,
                 maint_margin = mmr,
                 maint_margin_ratio = (if ratio > 0 then ratio * 100 else ratio),
                 liquidation_price = liq,
                 total_balance = tb,
                 free_balance = fb \<rparr>))))))))"

text \<open>Lines 590 to 643: the loop over the position rows, and the account-only result
  when no row of the instrument has a non-zero quantity.\<close>

fun scan_positions ::
  "pylib \<Rightarrow> config \<Rightarrow> real \<Rightarrow> real \<Rightarrow> pyval list \<Rightarrow> position_info option" where
  "scan_positions lib cfg fb tb [] = Some (AccountInfoOnly tb fb)"
| "scan_positions lib cfg fb tb (PDict pos_data # rest) =
     (if py_get pos_data ''instId'' = PStr ''BTC-USDT-SWAP'' then
        (case pyfloat lib (py_get_default pos_data ''pos'' (PNum 0)) of
           None \<Rightarrow> None
         | Some pos \<Rightarrow>
             if \<bar>pos\<bar> > 0 then
               map_option OpenPosition (build_position lib cfg fb tb pos_data pos)
             else scan_positions lib cfg fb tb rest)
      else scan_positions lib cfg fb tb rest)"
| "scan_positions lib cfg fb tb (_ # rest) = None"

text \<open>
  \<^verbatim>\<open>get_current_position\<close>. Every exception is caught by the function's own handler and
  becomes the result \<^verbatim>\<open>None\<close>, so the order in which the two requests and the
  conversions fail does not show in the result.
\<close>

definition get_current_position ::
  "pylib \<Rightarrow> config \<Rightarrow> exchange option \<Rightarrow> position_info option" where
  "get_current_position lib cfg exch =
     (case exch of
        None \<Rightarrow> None
      | Some ex \<Rightarrow>
          (case private_get_account_positions ex of
             Some (PDict response) \<Rightarrow>
               (case map_of response ''data'' of
                  None \<Rightarrow> None
                | Some positions_data \<Rightarrow>
                    (case py_iter positions_data of
                       None \<Rightarrow> None
                     | Some rows \<Rightarrow>
                         (case account_balances lib (private_get_account_balance ex) of
                            None \<Rightarrow> None
                          | Some (fb, tb) \<Rightarrow> scan_positions lib cfg fb tb rows)))
           | _ \<Rightarrow> None))"

section \<open>Market Snapshot Provider: \<^verbatim>\<open>get_btc_ohlcv\<close>\<close>

record kline =
  k_timestamp :: int
  k_open :: real
  k_high :: real
  k_low :: real
  k_close :: real
  k_volume :: real

text \<open>
  The percent change is computed on the cells of a data frame row, which are numpy
  floats: a division by zero there does not raise, it yields a non-finite value
  (\<^verbatim>\<open>nan\<close> or an infinity), written \<open>NonFinite\<close>.
\<close>

datatype np_float = Finite real | NonFinite

definition percent_change :: "real \<Rightarrow> real \<Rightarrow> np_float" where
  "percent_change current_close previous_close =
     (if previous_close = 0 then NonFinite
      else Finite ((current_close - previous_close) / previous_close * 100))"

record price_data =
  price :: real
  timestamp :: string
  high :: real
  low :: real
  volume :: real
  timeframe :: string
  price_change :: np_float
  kline_data :: "kline list"

text \<open>Lines 508 to 515: one row of the exchange's reply becomes six numbers.\<close>

definition convert_candle :: "pylib \<Rightarrow> pyval \<Rightarrow> kline option" where
  "convert_candle lib candle = do {
     c0 \<leftarrow> py_index candle 0; t \<leftarrow> pyint lib c0;
     c1 \<leftarrow> py_index candle 1; o' \<leftarrow> pyfloat lib c1;
     c2 \<leftarrow> py_index candle 2; h \<leftarrow> pyfloat lib c2;
     c3 \<leftarrow> py_index candle 3; l \<leftarrow> pyfloat lib c3;
     c4 \<leftarrow> py_index candle 4; c \<leftarrow> pyfloat lib c4;
     c5 \<leftarrow> py_index candle 5; v \<leftarrow> pyfloat lib c5;
     Some \<lparr> k_timestamp = t, k_open = o', k_high = h, k_low = l, k_close = c, k_volume = v \<rparr>
   }"

fun convert_candles :: "pylib \<Rightarrow> pyval list \<Rightarrow> kline list option" where
  "convert_candles lib [] = Some []"
| "convert_candles lib (candle # rest) =
     (case convert_candle lib candle of
        None \<Rightarrow> None
      | Some k \<Rightarrow> map_option ((#) k) (convert_candles lib rest))"

text \<open>
  \<^verbatim>\<open>get_btc_ohlcv\<close>; \<open>now\<close> is the formatted wall-clock time. The exchange lists the
  newest candle first, and the rows are converted in reversed order, so the last row of
  the frame is the newest candle. Any exception is caught and gives \<^verbatim>\<open>None\<close>.
\<close>

definition get_btc_ohlcv ::
  "pylib \<Rightarrow> string \<Rightarrow> config \<Rightarrow> exchange option \<Rightarrow> price_data option" where
  "get_btc_ohlcv lib now cfg exch =
     (case exch of
        None \<Rightarrow> None
      | Some ex \<Rightarrow>
          (case public_get_market_candles ex of
             Some (PDict response) \<Rightarrow>
               (case map_of response ''data'' of
                  None \<Rightarrow> None
                | Some data \<Rightarrow>
                    if \<not> truthy data then None
                    else
                      (case py_iter data of
                         None \<Rightarrow> None
                       | Some candles \<Rightarrow>
                           (case convert_candles lib (rev candles) of
                              None \<Rightarrow> None
                            | Some ohlcv \<Rightarrow>
                                if ohlcv = [] then None
                                else if \<not> list_all (\<lambda>k. to_datetime_ok lib (k_timestamp k)) ohlcv
                                then None
                                else
                                  (let current_data = last ohlcv;
                                       previous_data =
                                         (if length ohlcv > 1 then ohlcv ! (length ohlcv - 2)
                                          else current_data)
                                   in Some \<lparr> price = k_close current_data,
                                             timestamp = now,
                                             high = k_high current_data,
                                             low = k_low current_data,
                                             volume = k_volume current_data,
                                             timeframe = cfg_timeframe cfg,
                                             price_change =
                                               percent_change (k_close current_data)
                                                              (k_close previous_data),
                                             kline_data = drop (length ohlcv - 5) ohlcv \<rparr>))))
           | _ \<Rightarrow> None))"

section \<open>Signal Generator: \<^verbatim>\<open>analyze_with_deepseek\<close>\<close>

text \<open>The two module-level histories.\<close>

record bot_state =
  price_history :: "price_data list"
  signal_history :: "pydict list"

text \<open>Lines 657 to 659 and 743 to 745: append, then drop the oldest entry when the
  list has grown past its bound.\<close>

definition record_price :: "price_data list \<Rightarrow> price_data \<Rightarrow> price_data list" where
  "record_price history price_data =
     (let h = history @ [price_data] in if length h > 20 then tl h else h)"

definition record_signal :: "pydict list \<Rightarrow> pydict \<Rightarrow> pydict list" where
  "record_signal history signal_data =
     (let h = history @ [signal_data] in if length h > 30 then tl h else h)"

text \<open>
  What the prompt is built from. The text itself is not modelled; the inference
  collaborator is a function of these parts. One line per candle: bullish or not, open,
  close, percent move.
\<close>

record prompt =
  p_klines :: "(bool \<times> real \<times> real \<times> real) list"
  p_indicator :: "(real \<times> real) option"
  p_last_signal :: "(pyval \<times> pyval) option"
  p_position :: "(string \<times> real \<times> real) option"
  p_price_data :: price_data
  p_timeframe :: string

text \<open>Lines 663 to 666. The candle records hold Python floats, so a zero open raises.\<close>

fun kline_lines :: "kline list \<Rightarrow> py_error + (bool \<times> real \<times> real \<times> real) list" where
  "kline_lines [] = Inr []"
| "kline_lines (k # ks) =
     (if k_open k = 0 then Inl ZeroDivisionError
      else
        (case kline_lines ks of
           Inl e \<Rightarrow> Inl e
         | Inr ls \<Rightarrow>
             Inr ((k_close k > k_open k, k_open k, k_close k,
                   (k_close k - k_open k) / k_open k * 100) # ls)))"

text \<open>Lines 669 to 675: the mean of the last five recorded prices and the current
  price's deviation from it.\<close>

definition indicator :: "price_data list \<Rightarrow> price_data \<Rightarrow> py_error + (real \<times> real) option" where
  "indicator history price_data =
     (if length history \<ge> 5 then
        (let closes = map price (drop (length history - 5) history);
             sma_5 = sum_list closes / real (length closes)
         in if sma_5 = 0 then Inl ZeroDivisionError
            else Inr (Some (sma_5, (price price_data - sma_5) / sma_5 * 100)))
      else Inr None)"

text \<open>Lines 679 to 681.\<close>

definition last_signal_text :: "pydict list \<Rightarrow> (pyval \<times> pyval) option" where
  "last_signal_text history =
     (if history = [] then None
      else Some (py_get_default (last history) ''signal'' (PStr ''N/A''),
                 py_get_default (last history) ''confidence'' (PStr ''N/A'')))"

text \<open>Line 685. The account-only dictionary is not empty, hence truthy, and has no key
  \<^verbatim>\<open>side\<close>.\<close>

fun position_text :: "position_info option \<Rightarrow> py_error + (string \<times> real \<times> real) option" where
  "position_text None = Inr None"
| "position_text (Some (OpenPosition p)) = Inr (Some (side p, psize p, unrealized_pnl p))"
| "position_text (Some (AccountInfoOnly tb fb)) = Inl KeyError"

text \<open>\<^verbatim>\<open>str.find\<close> and \<^verbatim>\<open>str.rfind\<close> for one character: the index of the first (last)
  occurrence, or \<open>-1\<close>.\<close>

fun str_find :: "char \<Rightarrow> string \<Rightarrow> int" where
  "str_find c [] = - 1"
| "str_find c (x # xs) =
     (if x = c then 0 else (let i = str_find c xs in if i = - 1 then - 1 else i + 1))"

definition str_rfind :: "char \<Rightarrow> string \<Rightarrow> int" where
  "str_rfind c s =
     (let i = str_find c (rev s) in if i = - 1 then - 1 else int (length s) - 1 - i)"

text \<open>\<^verbatim>\<open>s[i:j]\<close> for \<open>0 \<le> i\<close> and \<open>0 \<le> j \<le> len(s)\<close>; empty when \<open>j \<le> i\<close>.\<close>

definition py_slice :: "string \<Rightarrow> int \<Rightarrow> int \<Rightarrow> string" where
  "py_slice s i j = take (nat (j - i)) (drop (nat i) s)"

text \<open>Lines 733 to 740: the span from the first opening brace to the last closing one.\<close>

definition extract_json :: "string \<Rightarrow> string option" where
  "extract_json result =
     (let start_idx = str_find CHR ''{'' result;
          end_idx = str_rfind CHR ''}'' result + 1
      in if start_idx \<noteq> - 1 \<and> end_idx \<noteq> 0 then Some (py_slice result start_idx end_idx)
         else None)"

text \<open>
  Lines 732 to 750, after the reply has arrived. Every exception here is caught and
  gives \<^verbatim>\<open>None\<close>: a span that is not JSON, and a parsed value that is not a dictionary
  (the assignment of the timestamp raises \<^verbatim>\<open>TypeError\<close>).
\<close>

definition parse_reply ::
  "pylib \<Rightarrow> price_data \<Rightarrow> string \<Rightarrow> bot_state \<Rightarrow> pydict option \<times> bot_state" where
  "parse_reply lib price_data result st =
     (case extract_json result of
        None \<Rightarrow> (None, st)
      | Some json_str \<Rightarrow>
          (case json_loads lib json_str of
             Some (PDict parsed) \<Rightarrow>
               (let signal_data = AList.update ''timestamp'' (PStr (timestamp price_data)) parsed
                in (Some signal_data,
                    st \<lparr> signal_history := record_signal (signal_history st) signal_data \<rparr>))
           | _ \<Rightarrow> (None, st)))"

text \<open>
  Lines 661 to 720: the parts of the prompt, in the order the source computes them. An
  exception here is outside the \<^verbatim>\<open>try\<close> and leaves \<^verbatim>\<open>analyze_with_deepseek\<close>.
\<close>

definition build_prompt ::
  "config \<Rightarrow> position_info option \<Rightarrow> price_data \<Rightarrow> bot_state \<Rightarrow> py_error + prompt" where
  "build_prompt cfg current_pos price_data st =
     (case kline_lines (kline_data price_data) of
        Inl e \<Rightarrow> Inl e
      | Inr kline_text \<Rightarrow>
          (case indicator (price_history st) price_data of
             Inl e \<Rightarrow> Inl e
           | Inr indicator_text \<Rightarrow>
               (case position_text current_pos of
                  Inl e \<Rightarrow> Inl e
                | Inr position_txt \<Rightarrow>
                    Inr \<lparr> p_klines = kline_text,
                          p_indicator = indicator_text,
                          p_last_signal = last_signal_text (signal_history st),
                          p_position = position_txt,
                          p_price_data = price_data,
                          p_timeframe = cfg_timeframe cfg \<rparr>)))"

text \<open>
  \<^verbatim>\<open>analyze_with_deepseek\<close>. The client is \<^verbatim>\<open>None\<close> when no API key is configured;
  otherwise it maps the prompt to the reply's text, or raises (\<open>None\<close>). The result is
  \<open>Inl e\<close> when the exception \<open>e\<close> leaves the function, \<open>Inr None\<close> for the return value
  \<^verbatim>\<open>None\<close>, \<open>Inr (Some signal_data)\<close> for a signal; the second component is the state of
  the two histories afterwards. The observation is recorded first (lines 657 to 659), so
  the prompt is built from the history that already holds it.
\<close>

definition analyze_with_deepseek ::
  "pylib \<Rightarrow> config \<Rightarrow> exchange option \<Rightarrow> (prompt \<Rightarrow> string option) option \<Rightarrow>
     price_data \<Rightarrow> bot_state \<Rightarrow> (py_error + pydict option) \<times> bot_state" where
  "analyze_with_deepseek lib cfg exch deepseek_client price_data st =
     (case deepseek_client of
        None \<Rightarrow> (Inr None, st)
      | Some client \<Rightarrow>
          (let st1 = st \<lparr> price_history := record_price (price_history st) price_data \<rparr>
           in case build_prompt cfg (get_current_position lib cfg exch) price_data st1 of
                Inl e \<Rightarrow> (Inl e, st1)
              | Inr prompt' \<Rightarrow>
                  (case client prompt' of
                     None \<Rightarrow> (Inr None, st1)
                   | Some result \<Rightarrow>
                       (case parse_reply lib price_data result st1 of
                          (r, st2) \<Rightarrow> (Inr r, st2)))))"

text \<open>Successive runs of the signal generator, one per observation, on the shared state.\<close>

definition run_analyses ::
  "pylib \<Rightarrow> config \<Rightarrow> exchange option \<Rightarrow> (prompt \<Rightarrow> string option) option \<Rightarrow>
     price_data list \<Rightarrow> bot_state \<Rightarrow> bot_state" where
  "run_analyses lib cfg exch deepseek_client observations st =
     fold (\<lambda>price_data s. snd (analyze_with_deepseek lib cfg exch deepseek_client price_data s))
          observations st"

section \<open>Reconciler/Executor: \<^verbatim>\<open>execute_trade\<close>\<close>

text \<open>\<^verbatim>\<open>trade_stats.json\<close>, the persisted counters.\<close>

record trade_stats =
  total_trades :: int
  winning_trades :: int
  losing_trades :: int
  last_updated :: "string option"

text \<open>
  What the executor can change outside the process: the orders the exchange has received,
  in order, and the contents of the statistics file (\<open>None\<close> while it does not exist).
  Log lines and the two-second pause are not modelled.
\<close>

record world =
  submitted :: "order list"
  stats_file :: "trade_stats option"

text \<open>\<^verbatim>\<open>save_trade_stats\<close>: stamps the record and writes it; when the write raises the
  file keeps its contents and the function returns \<^verbatim>\<open>False\<close>.\<close>

definition save_trade_stats :: "string \<Rightarrow> bool \<Rightarrow> trade_stats \<Rightarrow> world \<Rightarrow> bool \<times> world" where
  "save_trade_stats now writable stats w =
     (if writable then (True, w \<lparr> stats_file := Some (stats \<lparr> last_updated := Some now \<rparr>) \<rparr>)
      else (False, w))"

record receipt =
  r_id :: pyval
  clientOrderId :: pyval
  status :: string
  info :: pydict

text \<open>
  \<^verbatim>\<open>create_market_order_safe\<close>: the request goes out, then the reply is checked. \<open>None\<close>
  is any exception (the call itself, an empty reply, a rejection code); the caller's
  handler catches all of them alike.
\<close>

definition create_market_order_safe ::
  "exchange \<Rightarrow> string \<Rightarrow> real \<Rightarrow> bool \<Rightarrow> world \<Rightarrow> receipt option \<times> world" where
  "create_market_order_safe ex side' size' reduce_only w =
     (let params = \<lparr> instId = ''BTC-USDT-SWAP'', tdMode = ''cross'', o_side = side',
                      ordType = ''market'', sz = size', reduceOnly = reduce_only \<rparr>;
          w' = w \<lparr> submitted := submitted w @ [params] \<rparr>
      in case private_post_trade_order ex params of
           Some (PDict response) \<Rightarrow>
             (case map_of response ''data'' of
                Some (PList (PDict order_data # _)) \<Rightarrow>
                  if py_get order_data ''sCode'' \<noteq> PStr ''0'' then (None, w')
                  else (Some \<lparr> r_id = py_get order_data ''ordId'',
                                clientOrderId = py_get order_data ''clOrdId'',
                                status = ''filled'',
                                info = order_data \<rparr>, w')
              | _ \<Rightarrow> (None, w'))
         | _ \<Rightarrow> (None, w'))"

text \<open>
  \<^verbatim>\<open>execute_trade\<close>. The first component is the exception that leaves the function, if
  any: only the three look-ups of the log lines are outside the \<^verbatim>\<open>try\<close>. Inside it, the
  account-only dictionary is truthy and has no key \<^verbatim>\<open>side\<close>, so the test of the side
  raises \<^verbatim>\<open>KeyError\<close>, which the handler logs. The position read after an order is only
  logged.
\<close>

definition execute_trade ::
  "pylib \<Rightarrow> config \<Rightarrow> exchange option \<Rightarrow> pydict \<Rightarrow> price_data \<Rightarrow> world \<Rightarrow>
     py_error option \<times> world" where
  "execute_trade lib cfg exch signal_data price_data w =
     (case exch of
        None \<Rightarrow> (None, w)
      | Some ex \<Rightarrow>
          (let current_position = get_current_position lib cfg exch
           in if map_of signal_data ''signal'' = None \<or> map_of signal_data ''confidence'' = None
                 \<or> map_of signal_data ''reason'' = None
              then (Some KeyError, w)
              else if test_mode cfg then (None, w)
              else if py_get signal_data ''signal'' = PStr ''BUY'' then
                (case current_position of
                   Some (AccountInfoOnly tb fb) \<Rightarrow> (None, w)
                 | Some (OpenPosition p) \<Rightarrow>
                     if side p = ''short''
                     then (None, snd (create_market_order_safe ex ''buy'' \<bar>psize p\<bar> True w))
                     else (None, snd (create_market_order_safe ex ''buy'' (amount cfg) False w))
                 | None \<Rightarrow> (None, snd (create_market_order_safe ex ''buy'' (amount cfg) False w)))
              else if py_get signal_data ''signal'' = PStr ''SELL'' then
                (case current_position of
                   Some (AccountInfoOnly tb fb) \<Rightarrow> (None, w)
                 | Some (OpenPosition p) \<Rightarrow>
                     if side p = ''long''
                     then (None, snd (create_market_order_safe ex ''sell'' (psize p) True w))
                     else (None, snd (create_market_order_safe ex ''sell'' (amount cfg) False w))
                 | None \<Rightarrow> (None, snd (create_market_order_safe ex ''sell'' (amount cfg) False w)))
              else (None, w)))"

section \<open>Ledger statistics: the drawdown part of \<^verbatim>\<open>get_equity_curve\<close>\<close>

record equity_point =
  e_timestamp :: string
  balance :: real
  pnl :: real
  pnl_percent :: real

record equity_stats =
  initial_balance :: real
  current_balance :: real
  max_balance :: real
  min_balance :: real
  max_drawdown :: real
  total_return :: real

text \<open>\<^verbatim>\<open>round(x, 2)\<close> on real numbers: to the nearest hundredth, a tie to the even one.\<close>

definition round_half_even :: "real \<Rightarrow> int" where
  "round_half_even x =
     (let f = \<lfloor>x\<rfloor>; r = x - of_int f
      in if r < 1 / 2 then f else if r > 1 / 2 then f + 1 else if even f then f else f + 1)"

definition round2 :: "real \<Rightarrow> real" where
  "round2 x = of_int (round_half_even (x * 100)) / 100"

text \<open>Lines 1748 to 1759: the live balance read from the position dictionary.\<close>

fun actual_account_balance :: "position_info option \<Rightarrow> real" where
  "actual_account_balance None = 0"
| "actual_account_balance (Some (AccountInfoOnly tb fb)) = (if tb = 0 then fb + 0 + 0 else tb)"
| "actual_account_balance (Some (OpenPosition p)) =
     (if total_balance p = 0 then free_balance p + initial_margin p + unrealized_pnl p
      else total_balance p)"

text \<open>\<^verbatim>\<open>current_position.get('unrealized_pnl')\<close>, 0 standing for every falsy answer.\<close>

fun live_unrealized_pnl :: "position_info option \<Rightarrow> real" where
  "live_unrealized_pnl (Some (OpenPosition p)) = unrealized_pnl p"
| "live_unrealized_pnl _ = 0"

text \<open>Lines 1828 and 1835: the drawdown of a balance against the greatest balance seen,
  in percent; 0 when that greatest balance is not positive.\<close>

definition round_drawdown :: "real \<Rightarrow> real \<Rightarrow> real" where
  "round_drawdown bal seen = (if seen > 0 then (bal - seen) / seen * 100 else 0)"

text \<open>Lines 1824 to 1830: one round of the loop, on the pair
  \<open>(max_balance_seen, max_drawdown)\<close>.\<close>

definition drawdown_step :: "real \<Rightarrow> real \<times> real \<Rightarrow> real \<times> real" where
  "drawdown_step bal acc =
     (case acc of (max_balance_seen, max_dd) \<Rightarrow>
        (let seen = (if bal > max_balance_seen then bal else max_balance_seen);
             drawdown = round_drawdown bal seen
         in (seen, if drawdown < max_dd then drawdown else max_dd)))"

text \<open>Lines 1821 to 1830: the loop over the whole series, started at the first balance
  and a drawdown of 0; and the pair as it stands after the round for index \<open>i\<close>.\<close>

definition drawdown_loop :: "real list \<Rightarrow> real \<times> real" where
  "drawdown_loop balances = fold drawdown_step balances (hd balances, 0)"

definition loop_after :: "real list \<Rightarrow> nat \<Rightarrow> real \<times> real" where
  "loop_after balances i = fold drawdown_step (take (Suc i) balances) (hd balances, 0)"

text \<open>Lines 1807 to 1818: the live balance, when the series is not empty.\<close>

definition live_balance :: "equity_point list \<Rightarrow> position_info option \<Rightarrow> real" where
  "live_balance equity_data current_position =
     (let actual = actual_account_balance current_position;
          upnl = live_unrealized_pnl current_position;
          base_current = balance (last equity_data)
      in if actual > 0 then actual
         else if upnl \<noteq> 0 then base_current + upnl else base_current)"

text \<open>
  Lines 1803 to 1880, for the series \<open>equity_data\<close> as it stands after loading and
  initialisation; \<open>base_usdt\<close> is the entry \<^verbatim>\<open>base_usdt_amount\<close> of the bot's
  configuration file, when it has one. The figures are rounded in the reply.
\<close>

definition equity_summary ::
  "equity_point list \<Rightarrow> position_info option \<Rightarrow> real option \<Rightarrow> equity_stats" where
  "equity_summary equity_data current_position base_usdt =
     (let actual = actual_account_balance current_position;
          upnl = live_unrealized_pnl current_position
      in if equity_data \<noteq> [] then
           (let initial = balance (hd equity_data);
                current = live_balance equity_data current_position;
                looped = drawdown_loop (map balance equity_data);
                seen = (if current > fst looped then current else fst looped);
                current_drawdown = round_drawdown current seen;
                max_dd = (if current_drawdown < snd looped then current_drawdown else snd looped)
            in \<lparr> initial_balance = round2 initial,
                 current_balance = round2 current,
                 max_balance = round2 seen,
                 min_balance = round2 (fold min (map balance (tl equity_data)) initial),
                 max_drawdown = round2 max_dd,
                 total_return = round2 (if initial > 0 then (current - initial) / initial * 100 else 0) \<rparr>)
         else
           (let initial = (if actual > 0
                           then (case base_usdt of
                                   Some c \<Rightarrow> if c > 0 then c else actual
                                 | None \<Rightarrow> actual)
                           else (case base_usdt of Some c \<Rightarrow> c | None \<Rightarrow> 100));
                current = (if actual > 0 then actual
                           else if upnl \<noteq> 0 then initial + upnl else initial)
            in \<lparr> initial_balance = round2 initial,
                 current_balance = round2 current,
                 max_balance = round2 current,
                 min_balance = round2 initial,
                 max_drawdown = round2 0,
                 total_return = round2 (if initial > 0 then (current - initial) / initial * 100 else 0) \<rparr>))"

text \<open>
  The drawdown series in the words of the design: the running maximum at an index is the
  greatest balance up to it, and the drawdown there is the balance's distance below that
  maximum, in percent of it; a running maximum that is not positive gives 0.
\<close>

definition running_max :: "real list \<Rightarrow> nat \<Rightarrow> real" where
  "running_max balances i = Max (set (take (Suc i) balances))"

definition drawdown_at :: "real list \<Rightarrow> nat \<Rightarrow> real" where
  "drawdown_at balances i =
     (if running_max balances i > 0
      then (balances ! i - running_max balances i) / running_max balances i * 100
      else 0)"

section \<open>A concrete standard library for worked examples\<close>

text \<open>
  The examples below need \<^verbatim>\<open>float\<close>, \<^verbatim>\<open>int\<close> and \<^verbatim>\<open>json.loads\<close> at a few concrete
  texts. \<open>dec_float\<close> and \<open>dec_int\<close> read plain decimal numerals (an optional minus sign,
  digits, and for \<open>dec_float\<close> an optional fraction), on which they agree with Python;
  Python accepts more notations, which the examples do not use. \<open>json_table\<close> lists
  the value of \<^verbatim>\<open>json.loads\<close> at the texts of the examples.
\<close>

definition digit_value :: "char \<Rightarrow> nat option" where
  "digit_value c =
     map_of [(CHR ''0'', 0), (CHR ''1'', 1), (CHR ''2'', 2), (CHR ''3'', 3), (CHR ''4'', 4),
             (CHR ''5'', 5), (CHR ''6'', 6), (CHR ''7'', 7), (CHR ''8'', 8), (CHR ''9'', 9)] c"

fun digits_value :: "nat \<Rightarrow> string \<Rightarrow> nat option" where
  "digits_value acc [] = Some acc"
| "digits_value acc (c # cs) =
     (case digit_value c of None \<Rightarrow> None | Some d \<Rightarrow> digits_value (10 * acc + d) cs)"

definition dec_nat :: "string \<Rightarrow> nat option" where
  "dec_nat s = (if s = [] then None else digits_value 0 s)"

definition dec_unsigned :: "string \<Rightarrow> real option" where
  "dec_unsigned s =
     (case dropWhile (\<lambda>c. c \<noteq> CHR ''.'') s of
        [] \<Rightarrow> map_option real (dec_nat s)
      | _ # fdigits \<Rightarrow>
          (case (dec_nat (takeWhile (\<lambda>c. c \<noteq> CHR ''.'') s), dec_nat fdigits) of
             (Some a, Some b) \<Rightarrow> Some (real a + real b / 10 ^ length fdigits)
           | _ \<Rightarrow> None))"

fun dec_float :: "string \<Rightarrow> real option" where
  "dec_float [] = None"
| "dec_float (c # cs) =
     (if c = CHR ''-'' then map_option uminus (dec_unsigned cs) else dec_unsigned (c # cs))"

fun dec_int :: "string \<Rightarrow> int option" where
  "dec_int [] = None"
| "dec_int (c # cs) =
     (if c = CHR ''-'' then map_option (\<lambda>n. - int n) (dec_nat cs)
      else map_option int (dec_nat (c # cs)))"

definition json_table :: "string \<Rightarrow> pyval option" where
  \<open>json_table =
     map_of
       [(''{"signal": "BUY"}'', PDict [(''signal'', PStr ''BUY'')]),
        (''{"signal": "SELL", "reason": "x", "stop_loss": 1, "take_profit": 2, "confidence": "HIGH"}'',
         PDict [(''signal'', PStr ''SELL''), (''reason'', PStr ''x''), (''stop_loss'', PNum 1),
                (''take_profit'', PNum 2), (''confidence'', PStr ''HIGH'')])]\<close>

definition example_lib :: pylib where
  "example_lib =
     \<lparr> float_of_str = dec_float, int_of_str = dec_int, json_loads = json_table,
       to_datetime_ok = (\<lambda>t. \<bar>t\<bar> \<le> 9223372036854) \<rparr>"

section \<open>Readings of the results\<close>

text \<open>\<^verbatim>\<open>result['free_balance']\<close> and \<^verbatim>\<open>result['total_balance']\<close>, which both dictionaries
  of the Position Oracle carry.\<close>

fun info_free_balance :: "position_info \<Rightarrow> real" where
  "info_free_balance (OpenPosition p) = free_balance p"
| "info_free_balance (AccountInfoOnly tb fb) = fb"

fun info_total_balance :: "position_info \<Rightarrow> real" where
  "info_total_balance (OpenPosition p) = total_balance p"
| "info_total_balance (AccountInfoOnly tb fb) = tb"

text \<open>A balance field resolves to zero when the key is missing or its value converts
  to the number 0.\<close>

definition absent_or_zero :: "pylib \<Rightarrow> pydict \<Rightarrow> string \<Rightarrow> bool" where
  "absent_or_zero lib d k =
     (case map_of d k of None \<Rightarrow> True | Some v \<Rightarrow> v \<noteq> PNone \<and> pyfloat lib v = Some 0)"

section \<open>Worked inputs\<close>

definition live_config :: config where
  "live_config =
     \<lparr> symbol = ''BTC/USDT:USDT'', amount = 1 / 100, leverage = 10, cfg_timeframe = ''15m'',
       test_mode = False, base_usdt_amount = 100, refresh_interval = 2 \<rparr>"

text \<open>The exchange accepts every order.\<close>

definition order_accepted :: "order \<Rightarrow> pyval option" where
  "order_accepted params =
     Some (PDict [(''code'', PStr ''0''),
                  (''data'', PList [PDict [(''ordId'', PStr ''1''), (''sCode'', PStr ''0'')]])])"

text \<open>A balance reply whose USDT entry holds the given fields.\<close>

definition balance_reply :: "pydict \<Rightarrow> pyval" where
  "balance_reply usdt_fields =
     PDict [(''code'', PStr ''0''),
            (''data'', PList [PDict [(''details'',
               PList [PDict ((''ccy'', PStr ''USDT'') # usdt_fields)])]])]"

definition positions_reply :: "pyval list \<Rightarrow> pyval" where
  "positions_reply rows = PDict [(''code'', PStr ''0''), (''data'', PList rows)]"

definition long_row :: pyval where
  "long_row = PDict [(''instId'', PStr ''BTC-USDT-SWAP''), (''pos'', PStr ''1''),
                     (''avgPx'', PStr ''50000''), (''upl'', PStr ''0''), (''lever'', PStr ''10'')]"

text \<open>An account that is long one contract, one that is flat with 100 USDT, and one that
  is flat with nothing.\<close>

definition long_exchange :: exchange where
  "long_exchange =
     \<lparr> public_get_market_candles = None,
       private_get_account_positions = Some (positions_reply [long_row]),
       private_get_account_balance =
         Some (balance_reply [(''availBal'', PStr ''100''), (''bal'', PStr ''100'')]),
       private_post_trade_order = order_accepted \<rparr>"

definition flat_exchange :: exchange where
  "flat_exchange =
     \<lparr> public_get_market_candles = None,
       private_get_account_positions = Some (positions_reply []),
       private_get_account_balance =
         Some (balance_reply [(''availBal'', PStr ''100''), (''bal'', PStr ''100'')]),
       private_post_trade_order = order_accepted \<rparr>"

definition zero_exchange :: exchange where
  "zero_exchange =
     \<lparr> public_get_market_candles = None,
       private_get_account_positions = Some (positions_reply []),
       private_get_account_balance =
         Some (balance_reply [(''availBal'', PStr ''0''), (''availEq'', PStr ''0''),
                              (''eq'', PStr ''0''), (''bal'', PStr ''0''),
                              (''frozenBal'', PStr ''0'')]),
       private_post_trade_order = order_accepted \<rparr>"

definition long_position :: position where
  "long_position =
     \<lparr> side = ''long'', psize = 1, entry_price = 50000, mark_price = 50000,
       unrealized_pnl = 0, position_amt = 1, pos_symbol = ''BTC/USDT:USDT'', pos_leverage = 10,
       initial_margin = 0, maint_margin = 0, maint_margin_ratio = 0, liquidation_price = 0,
       total_balance = 100, free_balance = 100 \<rparr>"

text \<open>An exchange whose candle reply is the given rows, newest first.\<close>

definition candle_exchange :: "pyval list \<Rightarrow> exchange" where
  "candle_exchange rows =
     \<lparr> public_get_market_candles = Some (PDict [(''code'', PStr ''0''), (''data'', PList rows)]),
       private_get_account_positions = None,
       private_get_account_balance = None,
       private_post_trade_order = order_accepted \<rparr>"

definition example_signal :: "string \<Rightarrow> string \<Rightarrow> pydict" where
  "example_signal direction conf =
     [(''signal'', PStr direction), (''reason'', PStr ''x''), (''stop_loss'', PNum 1),
      (''take_profit'', PNum 2), (''confidence'', PStr conf)]"

definition example_observation :: "real \<Rightarrow> price_data" where
  "example_observation p =
     \<lparr> price = p, timestamp = ''2024-01-01 00:00:00'', high = p, low = p, volume = 1,
       timeframe = ''15m'', price_change = Finite 0, kline_data = [] \<rparr>"

text \<open>An inference client that answers every prompt with the same text.\<close>

definition constant_reply :: "string \<Rightarrow> prompt \<Rightarrow> string option" where
  "constant_reply reply p = Some reply"

definition empty_state :: bot_state where
  "empty_state = \<lparr> price_history = [], signal_history = [] \<rparr>"

definition fresh_stats :: trade_stats where
  "fresh_stats =
     \<lparr> total_trades = 0, winning_trades = 0, losing_trades = 0, last_updated = None \<rparr>"

definition fresh_world :: world where
  "fresh_world = \<lparr> submitted = [], stats_file = Some fresh_stats \<rparr>"

definition equity_of :: "real list \<Rightarrow> equity_point list" where
  "equity_of balances =
     map (\<lambda>b. \<lparr> e_timestamp = ''2024-01-01T00:00:00'', balance = b, pnl = 0, pnl_percent = 0 \<rparr>)
         balances"

text \<open>Candle rows as the exchange sends them: texts for the time in milliseconds, open,
  high, low, close and volume.\<close>

definition zero_candle :: pyval where
  "zero_candle = PList [PStr ''1700000000000'', PStr ''0'', PStr ''0'', PStr ''0'',
                        PStr ''0'', PStr ''0'']"

definition candle_at :: "string \<Rightarrow> string \<Rightarrow> pyval" where
  "candle_at t c = PList [PStr t, PStr c, PStr c, PStr c, PStr c, PStr ''1'']"

section \<open>Properties\<close>

subsection \<open>Evaluating the worked inputs\<close>

lemma example_lib_sel:
  "float_of_str example_lib = dec_float"
  "int_of_str example_lib = dec_int"
  "json_loads example_lib = json_table"
  "to_datetime_ok example_lib = (\<lambda>t. \<bar>t\<bar> \<le> 9223372036854)"
  by (simp_all add: example_lib_def)

lemmas dec_simps = example_lib_sel dec_unsigned_def dec_nat_def digit_value_def

lemma balance_100:
  "account_balances example_lib
     (Some (balance_reply [(''availBal'', PStr ''100''), (''bal'', PStr ''100'')]))
   = Some (100, 100)"
  by (simp add: account_balances_def balance_reply_def py_get_default_def py_get_def
        detail_balances_def py_or_def dec_simps)

lemma long_exchange_position:
  "get_current_position example_lib live_config (Some long_exchange)
     = Some (OpenPosition long_position)"
  by (simp add: get_current_position_def long_exchange_def positions_reply_def
        balance_100 long_row_def py_get_def py_get_default_def
        build_position_def dec_simps long_position_def live_config_def)

lemma flat_exchange_position:
  "get_current_position example_lib live_config (Some flat_exchange)
     = Some (AccountInfoOnly 100 100)"
  by (simp add: get_current_position_def flat_exchange_def positions_reply_def balance_100)

subsection \<open>What the signal generator does to the two histories\<close>

lemma parse_reply_price_history:
  "price_history (snd (parse_reply lib pd result st)) = price_history st"
  by (simp add: parse_reply_def Let_def split: option.split pyval.split)

lemma parse_reply_cases:
  "parse_reply lib pd result st = (None, st)
   \<or> (\<exists>sd. parse_reply lib pd result st
              = (Some sd, st \<lparr> signal_history := record_signal (signal_history st) sd \<rparr>))"
  by (simp add: parse_reply_def Let_def split: option.split pyval.split)

lemma analyze_price_history:
  "price_history (snd (analyze_with_deepseek lib cfg exch (Some client) pd st))
     = record_price (price_history st) pd"
proof -
  have "\<And>r st2 result st1. parse_reply lib pd result st1 = (r, st2) \<Longrightarrow>
          price_history st2 = price_history st1"
    using parse_reply_price_history by (metis snd_conv)
  then show ?thesis
    by (auto simp: analyze_with_deepseek_def Let_def split: sum.split option.split prod.split)
qed

lemma analyze_signal_history:
  "(\<exists>sd. fst (analyze_with_deepseek lib cfg exch (Some client) pd st) = Inr (Some sd)
        \<and> signal_history (snd (analyze_with_deepseek lib cfg exch (Some client) pd st))
            = record_signal (signal_history st) sd)
   \<or> ((\<forall>sd. fst (analyze_with_deepseek lib cfg exch (Some client) pd st) \<noteq> Inr (Some sd))
        \<and> signal_history (snd (analyze_with_deepseek lib cfg exch (Some client) pd st))
            = signal_history st)"
proof -
  let ?st1 = "st \<lparr> price_history := record_price (price_history st) pd \<rparr>"
  show ?thesis
  proof (cases "build_prompt cfg (get_current_position lib cfg exch) pd ?st1")
    case (Inl e)
    then show ?thesis by (simp add: analyze_with_deepseek_def Let_def)
  next
    case (Inr p)
    show ?thesis
    proof (cases "client p")
      case None
      with Inr show ?thesis by (simp add: analyze_with_deepseek_def Let_def)
    next
      case (Some result)
      from parse_reply_cases [of lib pd result ?st1]
      show ?thesis
        using Inr Some by (auto simp: analyze_with_deepseek_def Let_def)
    qed
  qed
qed

lemma record_price_last: "last (record_price h x) = x"
  by (cases h) (auto simp: record_price_def Let_def last_tl)

lemma record_price_short: "length h < 20 \<Longrightarrow> record_price h x = h @ [x]"
  by (auto simp: record_price_def Let_def)

lemma record_price_full: "length h = 20 \<Longrightarrow> record_price h x = tl h @ [x]"
  by (cases h) (auto simp: record_price_def Let_def)

lemma record_price_length: "length h \<le> 20 \<Longrightarrow> length (record_price h x) \<le> 20"
  by (auto simp: record_price_def Let_def)

lemma run_price_history:
  "length (price_history st) \<le> 20 \<Longrightarrow>
   price_history (run_analyses lib cfg exch (Some client) obs st)
     = drop (length (price_history st @ obs) - 20) (price_history st @ obs)"
proof (induction obs arbitrary: st)
  case Nil
  then show ?case by (simp add: run_analyses_def)
next
  case (Cons x xs)
  let ?s = "snd (analyze_with_deepseek lib cfg exch (Some client) x st)"
  let ?h = "price_history st"
  have ph: "price_history ?s = record_price ?h x"
    by (rule analyze_price_history)
  have len: "length (price_history ?s) \<le> 20"
    using Cons.prems by (simp add: ph record_price_length)
  have step: "price_history (run_analyses lib cfg exch (Some client) (x # xs) st)
        = drop (length (price_history ?s @ xs) - 20) (price_history ?s @ xs)"
    using Cons.IH [OF len] by (simp add: run_analyses_def)
  show ?case
  proof (cases "length ?h = 20")
    case True
    then have "?h \<noteq> []" by auto
    then obtain y ys where h: "?h = y # ys" by (cases ?h) auto
    with True have ys: "length ys = 19" by simp
    have "price_history ?s = ys @ [x]"
      using True h by (simp add: ph record_price_full)
    then show ?thesis
      unfolding step using h ys by (simp add: Suc_diff_le)
  next
    case False
    with Cons.prems have "length ?h < 20" by simp
    then have "price_history ?s = ?h @ [x]"
      by (simp add: ph record_price_short)
    then show ?thesis unfolding step by simp
  qed
qed

text \<open>
  Claim C7 (bounded price history). With an inference client configured, every run of
  the signal generator records its observation, whatever the run returns. Starting from
  an empty price history, after 25 runs the history is the last 20 of the 25 observations
  in their order, so its length is exactly 20 and the five oldest are gone; and after
  each of the runs on the way (the first \<open>n\<close> observations, for every \<open>n\<close>) the length is
  the smaller of \<open>n\<close> and 20, so it never exceeds 20.
\<close>

theorem price_history_bounded:
  assumes "deepseek_client = Some client"
      and "price_history st = []"
      and "length observations = 25"
  shows "price_history (run_analyses lib cfg exch deepseek_client observations st)
           = drop 5 observations
       \<and> length (price_history (run_analyses lib cfg exch deepseek_client observations st)) = 20
       \<and> (\<forall>n. length (price_history
                  (run_analyses lib cfg exch deepseek_client (take n observations) st))
                = min n 20)"
proof -
  have run: "\<And>obs. price_history (run_analyses lib cfg exch deepseek_client obs st)
               = drop (length obs - 20) obs"
    using run_price_history [of st lib cfg exch client] assms(1,2) by simp
  have a: "price_history (run_analyses lib cfg exch deepseek_client observations st)
           = drop 5 observations"
    by (simp add: run assms(3))
  have b: "\<And>n. length (price_history
                  (run_analyses lib cfg exch deepseek_client (take n observations) st))
                = min n 20"
    by (simp add: run assms(3))
  show ?thesis using a b assms(3) by simp
qed

theorem price_history_bounded_witness:
  "length (map (\<lambda>i. example_observation (real i)) [0..<25]) = 25
   \<and> price_history (run_analyses example_lib live_config None (Some (\<lambda>p. None))
        (map (\<lambda>i. example_observation (real i)) [0..<25]) empty_state)
     = map (\<lambda>i. example_observation (real i)) [5..<25]"
proof -
  have len: "length (map (\<lambda>i. example_observation (real i)) [0..<25]) = 25" by simp
  have emp: "price_history empty_state = []" by (simp add: empty_state_def)
  have "drop 5 (map (\<lambda>i. example_observation (real i)) [0..<25])
          = map (\<lambda>i. example_observation (real i)) [5..<25]"
    by (simp add: drop_map)
  with price_history_bounded [OF refl emp len, of example_lib live_config None]
  show ?thesis using len by simp
qed

text \<open>
  Claim C10 (signal generation is not atomic with respect to the histories). With an
  inference client configured, one run of the signal generator leaves the price history
  equal to the old one with the observation recorded at its end (appended, the oldest
  entry dropped once the bound of 20 is passed), whatever the run returns or raises;
  below the bound the history has grown by exactly that observation. The signal history
  is untouched unless the run returns a signal, and then that signal is what is recorded.
  The prompt handed to the inference client is built from the state that already holds
  the observation, and when the client's call fails the run returns no signal in that
  state.
\<close>

theorem history_not_atomic:
  assumes "deepseek_client = Some client"
  shows "price_history (snd (analyze_with_deepseek lib cfg exch deepseek_client price_data st))
           = record_price (price_history st) price_data
       \<and> last (price_history
                (snd (analyze_with_deepseek lib cfg exch deepseek_client price_data st)))
           = price_data
       \<and> (length (price_history st) < 20 \<longrightarrow>
            price_history (snd (analyze_with_deepseek lib cfg exch deepseek_client price_data st))
              = price_history st @ [price_data])
       \<and> ((\<forall>sd. fst (analyze_with_deepseek lib cfg exch deepseek_client price_data st)
                   \<noteq> Inr (Some sd)) \<longrightarrow>
            signal_history (snd (analyze_with_deepseek lib cfg exch deepseek_client price_data st))
              = signal_history st)
       \<and> (\<forall>sd. fst (analyze_with_deepseek lib cfg exch deepseek_client price_data st)
                   = Inr (Some sd) \<longrightarrow>
            signal_history (snd (analyze_with_deepseek lib cfg exch deepseek_client price_data st))
              = record_signal (signal_history st) sd)
       \<and> (\<forall>p. build_prompt cfg (get_current_position lib cfg exch) price_data
                   (st \<lparr> price_history := record_price (price_history st) price_data \<rparr>)
                 = Inr p \<and> client p = None \<longrightarrow>
              analyze_with_deepseek lib cfg exch deepseek_client price_data st
                = (Inr None,
                   st \<lparr> price_history := record_price (price_history st) price_data \<rparr>))"
proof -
  have failed: "\<And>p. build_prompt cfg (get_current_position lib cfg exch) price_data
                   (st \<lparr> price_history := record_price (price_history st) price_data \<rparr>)
                 = Inr p \<Longrightarrow> client p = None \<Longrightarrow>
              analyze_with_deepseek lib cfg exch (Some client) price_data st
                = (Inr None,
                   st \<lparr> price_history := record_price (price_history st) price_data \<rparr>)"
    by (simp add: analyze_with_deepseek_def Let_def)
  show ?thesis
    using analyze_price_history [of lib cfg exch client price_data st]
          analyze_signal_history [of lib cfg exch client price_data st]
          failed
    unfolding assms
    by (auto simp: record_price_last record_price_short)
qed

theorem history_not_atomic_witness:
  "analyze_with_deepseek example_lib live_config None (Some (\<lambda>p. Some ''no json here''))
       (example_observation 50000) empty_state
     = (Inr None, \<lparr> price_history = [example_observation 50000], signal_history = [] \<rparr>)
   \<and> price_history (snd (analyze_with_deepseek example_lib live_config None
       (Some (\<lambda>p. Some ''no json here'')) (example_observation 50000) empty_state))
     = price_history empty_state @ [example_observation 50000]"
proof -
  have ev: "analyze_with_deepseek example_lib live_config None
       (Some (\<lambda>p. Some ''no json here'')) (example_observation 50000) empty_state
     = (Inr None, \<lparr> price_history = [example_observation 50000], signal_history = [] \<rparr>)"
    by (simp add: analyze_with_deepseek_def build_prompt_def get_current_position_def
          indicator_def record_price_def empty_state_def example_observation_def Let_def
          parse_reply_def extract_json_def str_rfind_def)
  have len: "length (price_history empty_state) < 20" by (simp add: empty_state_def)
  from history_not_atomic [of "Some (\<lambda>p. Some ''no json here'')" "\<lambda>p. Some ''no json here''"
        example_lib live_config None "example_observation 50000" empty_state]
  show ?thesis using ev len by simp
qed

subsection \<open>Parsing the reply of the inference service\<close>

lemma extract_json_None:
  "str_find CHR ''{'' result = - 1 \<or> str_rfind CHR ''}'' result = - 1
     \<Longrightarrow> extract_json result = None"
  by (auto simp: extract_json_def Let_def)

lemma extract_json_Some:
  "str_find CHR ''{'' result \<noteq> - 1 \<Longrightarrow> str_rfind CHR ''}'' result \<noteq> - 1
     \<Longrightarrow> extract_json result
           = Some (py_slice result (str_find CHR ''{'' result) (str_rfind CHR ''}'' result + 1))"
  by (auto simp: extract_json_def Let_def)

lemma analyze_after_reply:
  assumes "build_prompt cfg (get_current_position lib cfg exch) pd
             (st \<lparr> price_history := record_price (price_history st) pd \<rparr>) = Inr p"
      and "client p = Some result"
  shows "fst (analyze_with_deepseek lib cfg exch (Some client) pd st)
           = Inr (fst (parse_reply lib pd result
                         (st \<lparr> price_history := record_price (price_history st) pd \<rparr>)))"
  using assms by (simp add: analyze_with_deepseek_def Let_def split: prod.split)

text \<open>
  Claim C5 (signal schema), as the code has it. Once the prompt is built and the
  inference client has replied, the signal generator takes the span from the first
  opening brace to the last closing brace of the reply. It returns no signal when the
  reply has no opening or no closing brace, and when the span is not JSON. When the span
  parses to an object, the run succeeds and the signal is that object with the
  observation's timestamp stored under \<^verbatim>\<open>timestamp\<close>, whatever fields the object has: no
  field is required and none is filled in.
\<close>

theorem reply_parsing:
  assumes "build_prompt cfg (get_current_position lib cfg exch) price_data
             (st \<lparr> price_history := record_price (price_history st) price_data \<rparr>) = Inr p"
      and "client p = Some result"
  shows "((str_find CHR ''{'' result = - 1 \<or> str_rfind CHR ''}'' result = - 1) \<longrightarrow>
            fst (analyze_with_deepseek lib cfg exch (Some client) price_data st) = Inr None)
       \<and> (json_loads lib (py_slice result (str_find CHR ''{'' result)
                                           (str_rfind CHR ''}'' result + 1)) = None \<longrightarrow>
            fst (analyze_with_deepseek lib cfg exch (Some client) price_data st) = Inr None)
       \<and> (\<forall>parsed.
            str_find CHR ''{'' result \<noteq> - 1 \<and> str_rfind CHR ''}'' result \<noteq> - 1
            \<and> json_loads lib (py_slice result (str_find CHR ''{'' result)
                                              (str_rfind CHR ''}'' result + 1))
                = Some (PDict parsed) \<longrightarrow>
            fst (analyze_with_deepseek lib cfg exch (Some client) price_data st)
              = Inr (Some (AList.update ''timestamp'' (PStr (timestamp price_data)) parsed)))"
proof -
  let ?st1 = "st \<lparr> price_history := record_price (price_history st) price_data \<rparr>"
  let ?span = "py_slice result (str_find CHR ''{'' result) (str_rfind CHR ''}'' result + 1)"
  have r: "fst (analyze_with_deepseek lib cfg exch (Some client) price_data st)
             = Inr (fst (parse_reply lib price_data result ?st1))"
    using assms by (rule analyze_after_reply)
  have a: "str_find CHR ''{'' result = - 1 \<or> str_rfind CHR ''}'' result = - 1
             \<Longrightarrow> fst (parse_reply lib price_data result ?st1) = None"
    by (simp add: parse_reply_def extract_json_None)
  have b: "json_loads lib ?span = None \<Longrightarrow> fst (parse_reply lib price_data result ?st1) = None"
    by (cases "str_find CHR ''{'' result = - 1 \<or> str_rfind CHR ''}'' result = - 1")
       (simp_all add: parse_reply_def extract_json_None extract_json_Some)
  have c: "\<And>parsed. str_find CHR ''{'' result \<noteq> - 1 \<Longrightarrow> str_rfind CHR ''}'' result \<noteq> - 1
             \<Longrightarrow> json_loads lib ?span = Some (PDict parsed)
             \<Longrightarrow> fst (parse_reply lib price_data result ?st1)
                   = Some (AList.update ''timestamp'' (PStr (timestamp price_data)) parsed)"
    by (simp add: parse_reply_def extract_json_Some Let_def)
  show ?thesis using a b c unfolding r by blast
qed

lemma empty_prompt:
  "build_prompt live_config (get_current_position example_lib live_config None)
     (example_observation 50000)
     (empty_state \<lparr> price_history :=
        record_price (price_history empty_state) (example_observation 50000) \<rparr>)
   = Inr \<lparr> p_klines = [], p_indicator = None, p_last_signal = None, p_position = None,
           p_price_data = example_observation 50000, p_timeframe = ''15m'' \<rparr>"
  by (simp add: build_prompt_def get_current_position_def indicator_def record_price_def
        empty_state_def example_observation_def last_signal_text_def live_config_def Let_def)

text \<open>
  A reply whose object has only the field \<^verbatim>\<open>signal\<close> is a success: the signal returned
  has neither \<^verbatim>\<open>confidence\<close> nor \<^verbatim>\<open>stop_loss\<close>.
\<close>

theorem schema_not_enforced:
  \<open>fst (analyze_with_deepseek example_lib live_config None
          (Some (constant_reply ''Here is my view: {"signal": "BUY"} thanks''))
          (example_observation 50000) empty_state)
     = Inr (Some [(''signal'', PStr ''BUY''), (''timestamp'', PStr ''2024-01-01 00:00:00'')])
   \<and> map_of [(''signal'', PStr ''BUY''), (''timestamp'', PStr ''2024-01-01 00:00:00'')]
        ''confidence'' = None
   \<and> map_of [(''signal'', PStr ''BUY''), (''timestamp'', PStr ''2024-01-01 00:00:00'')]
        ''stop_loss'' = None\<close>
proof -
  have ex: \<open>extract_json ''Here is my view: {"signal": "BUY"} thanks''
              = Some ''{"signal": "BUY"}''\<close>
    by (simp add: extract_json_def str_rfind_def py_slice_def Let_def)
  have ld: \<open>json_loads example_lib ''{"signal": "BUY"}'' = Some (PDict [(''signal'', PStr ''BUY'')])\<close>
    by (simp add: example_lib_sel json_table_def)
  have \<open>fst (parse_reply example_lib (example_observation 50000)
               ''Here is my view: {"signal": "BUY"} thanks''
               (empty_state \<lparr> price_history :=
                  record_price (price_history empty_state) (example_observation 50000) \<rparr>))
          = Some [(''signal'', PStr ''BUY''), (''timestamp'', PStr ''2024-01-01 00:00:00'')]\<close>
    by (simp add: parse_reply_def ex ld Let_def example_observation_def)
  then show ?thesis
    using analyze_after_reply [OF empty_prompt,
            of \<open>constant_reply ''Here is my view: {"signal": "BUY"} thanks''\<close>]
    by (simp add: constant_reply_def)
qed

theorem reply_parsing_witness:
  \<open>fst (analyze_with_deepseek example_lib live_config None
          (Some (constant_reply ''Sure. {"signal": "SELL", "reason": "x", "stop_loss": 1, "take_profit": 2, "confidence": "HIGH"} ok''))
          (example_observation 50000) empty_state)
     = Inr (Some (example_signal ''SELL'' ''HIGH'' @ [(''timestamp'', PStr ''2024-01-01 00:00:00'')]))\<close>
proof -
  let ?reply = \<open>''Sure. {"signal": "SELL", "reason": "x", "stop_loss": 1, "take_profit": 2, "confidence": "HIGH"} ok''\<close>
  have f: "str_find CHR ''{'' ?reply = 6" by simp
  have r: "str_rfind CHR ''}'' ?reply = 94" by (simp add: str_rfind_def)
  have sp: \<open>py_slice ?reply 6 (94 + 1)
     = ''{"signal": "SELL", "reason": "x", "stop_loss": 1, "take_profit": 2, "confidence": "HIGH"}''\<close>
    by (simp add: py_slice_def)
  have ld: "json_loads example_lib (py_slice ?reply 6 (94 + 1))
              = Some (PDict (example_signal ''SELL'' ''HIGH''))"
    unfolding sp by (simp add: example_lib_sel json_table_def example_signal_def)
  have up: "AList.update ''timestamp'' (PStr (timestamp (example_observation 50000)))
              (example_signal ''SELL'' ''HIGH'')
            = example_signal ''SELL'' ''HIGH'' @ [(''timestamp'', PStr ''2024-01-01 00:00:00'')]"
    by (simp add: example_signal_def example_observation_def)
  have cr: "constant_reply ?reply
              \<lparr> p_klines = [], p_indicator = None, p_last_signal = None, p_position = None,
                p_price_data = example_observation 50000, p_timeframe = ''15m'' \<rparr>
            = Some ?reply"
    by (simp add: constant_reply_def)
  from reply_parsing [where client = "constant_reply ?reply" and result = ?reply,
         OF empty_prompt cr]
  show ?thesis
    unfolding f r using ld up by simp
qed

subsection \<open>Orders sent by the executor\<close>

lemma create_order_submitted:
  "submitted (snd (create_market_order_safe ex sd sz' ro w))
     = submitted w @ [\<lparr> instId = ''BTC-USDT-SWAP'', tdMode = ''cross'', o_side = sd,
                         ordType = ''market'', sz = sz', reduceOnly = ro \<rparr>]"
  by (simp add: create_market_order_safe_def Let_def split: option.split pyval.split list.split)

lemma create_order_stats:
  "stats_file (snd (create_market_order_safe ex sd sz' ro w)) = stats_file w"
  by (simp add: create_market_order_safe_def Let_def split: option.split pyval.split list.split)

lemma execute_trade_stats:
  "stats_file (snd (execute_trade lib cfg exch signal_data price_data w)) = stats_file w"
  by (simp add: execute_trade_def Let_def create_order_stats
        split: option.split position_info.split)

lemma execute_trade_test_mode:
  "test_mode cfg \<Longrightarrow> snd (execute_trade lib cfg exch signal_data price_data w) = w"
  by (simp add: execute_trade_def Let_def split: option.split)

lemma execute_trade_long_sell:
  assumes "get_current_position lib cfg (Some ex) = Some (OpenPosition p)"
      and "side p = ''long''"
      and "\<not> test_mode cfg"
      and "map_of signal_data ''signal'' = Some (PStr ''SELL'')"
      and "map_of signal_data ''confidence'' = Some conf"
      and "map_of signal_data ''reason'' = Some reason"
  shows "execute_trade lib cfg (Some ex) signal_data price_data w
           = (None, snd (create_market_order_safe ex ''sell'' (psize p) True w))"
  using assms by (simp add: execute_trade_def Let_def py_get_def)

lemma execute_trade_long_buy:
  assumes "get_current_position lib cfg (Some ex) = Some (OpenPosition p)"
      and "side p = ''long''"
      and "\<not> test_mode cfg"
      and "map_of signal_data ''signal'' = Some (PStr ''BUY'')"
      and "map_of signal_data ''confidence'' = Some conf"
      and "map_of signal_data ''reason'' = Some reason"
  shows "execute_trade lib cfg (Some ex) signal_data price_data w
           = (None, snd (create_market_order_safe ex ''buy'' (amount cfg) False w))"
  using assms by (simp add: execute_trade_def Let_def py_get_def)

lemma execute_trade_flat:
  assumes "get_current_position lib cfg (Some ex) = Some (AccountInfoOnly tb fb)"
  shows "snd (execute_trade lib cfg (Some ex) signal_data price_data w) = w"
  using assms by (simp add: execute_trade_def Let_def)

lemma long_exchange_order_filled:
  "map_option status (fst (create_market_order_safe long_exchange ''sell'' 1 True fresh_world))
     = Some ''filled''"
  by (simp add: create_market_order_safe_def long_exchange_def order_accepted_def py_get_def
        Let_def)

lemma example_signal_fields:
  "map_of (example_signal d c) ''signal'' = Some (PStr d)"
  "map_of (example_signal d c) ''confidence'' = Some (PStr c)"
  "map_of (example_signal d c) ''reason'' = Some (PStr ''x'')"
  by (simp_all add: example_signal_def)

lemma long_position_fields:
  "side long_position = ''long''" "psize long_position = 1"
  by (simp_all add: long_position_def)

lemma live_config_fields:
  "\<not> test_mode live_config" "amount live_config = 1 / 100"
  by (simp_all add: live_config_def)

text \<open>
  With the account long one contract and a BUY signal of high confidence, in live mode,
  the executor sends an order: a market buy of the configured amount that is not
  reduce-only.
\<close>

theorem aligned_buy_adds_to_long:
  "submitted (snd (execute_trade example_lib live_config (Some long_exchange)
                     (example_signal ''BUY'' ''HIGH'') (example_observation 50000) fresh_world))
     = [\<lparr> instId = ''BTC-USDT-SWAP'', tdMode = ''cross'', o_side = ''buy'',
            ordType = ''market'', sz = 1 / 100, reduceOnly = False \<rparr>]"
  by (simp add: execute_trade_long_buy [OF long_exchange_position long_position_fields(1)
          live_config_fields(1) example_signal_fields]
        create_order_submitted live_config_fields fresh_world_def)

text \<open>
  Claim C1 (reconciliation when the position is already aligned), as the code has it.
  For every open long position and every BUY signal, of any confidence: in test mode
  \<^verbatim>\<open>execute_trade\<close> sends no order; otherwise it sends exactly one order, a market buy of
  the configured amount with \<^verbatim>\<open>reduce_only\<close> false, which adds to the long position.
\<close>

theorem long_buy_order:
  assumes "get_current_position lib cfg (Some ex) = Some (OpenPosition p)"
      and "side p = ''long''"
      and "map_of signal_data ''signal'' = Some (PStr ''BUY'')"
      and "map_of signal_data ''confidence'' = Some conf"
      and "map_of signal_data ''reason'' = Some reason"
  shows "(test_mode cfg \<longrightarrow>
            submitted (snd (execute_trade lib cfg (Some ex) signal_data price_data w))
              = submitted w)
       \<and> (\<not> test_mode cfg \<longrightarrow>
            submitted (snd (execute_trade lib cfg (Some ex) signal_data price_data w))
              = submitted w @ [\<lparr> instId = ''BTC-USDT-SWAP'', tdMode = ''cross'',
                                  o_side = ''buy'', ordType = ''market'', sz = amount cfg,
                                  reduceOnly = False \<rparr>])"
  using execute_trade_long_buy [OF assms(1,2) _ assms(3,4,5)]
  by (simp add: execute_trade_test_mode create_order_submitted)

theorem long_buy_order_witness:
  "submitted (snd (execute_trade example_lib live_config (Some long_exchange)
                     (example_signal ''BUY'' ''LOW'') (example_observation 50000) fresh_world))
     = submitted fresh_world @
       [\<lparr> instId = ''BTC-USDT-SWAP'', tdMode = ''cross'', o_side = ''buy'',
           ordType = ''market'', sz = amount live_config, reduceOnly = False \<rparr>]"
  using long_buy_order [OF long_exchange_position long_position_fields(1)
          example_signal_fields [of "''BUY''" "''LOW''"], where w = fresh_world]
        live_config_fields(1)
  by simp

text \<open>
  Claim C2 (no same-cycle flip). For every open long position and every SELL signal, of
  any confidence, with the exchange initialised and test mode off, \<^verbatim>\<open>execute_trade\<close>
  returns normally and sends exactly one order: a reduce-only market sell of the whole
  position size. No opening order is sent in that run.
\<close>

theorem no_same_cycle_flip:
  assumes "get_current_position lib cfg (Some ex) = Some (OpenPosition p)"
      and "side p = ''long''"
      and "\<not> test_mode cfg"
      and "map_of signal_data ''signal'' = Some (PStr ''SELL'')"
      and "map_of signal_data ''confidence'' = Some conf"
      and "map_of signal_data ''reason'' = Some reason"
  shows "fst (execute_trade lib cfg (Some ex) signal_data price_data w) = None
       \<and> submitted (snd (execute_trade lib cfg (Some ex) signal_data price_data w))
           = submitted w @ [\<lparr> instId = ''BTC-USDT-SWAP'', tdMode = ''cross'',
                               o_side = ''sell'', ordType = ''market'', sz = psize p,
                               reduceOnly = True \<rparr>]"
  by (simp add: execute_trade_long_sell [OF assms] create_order_submitted)

theorem no_same_cycle_flip_witness:
  "submitted (snd (execute_trade example_lib live_config (Some long_exchange)
                     (example_signal ''SELL'' ''LOW'') (example_observation 50000) fresh_world))
     = [\<lparr> instId = ''BTC-USDT-SWAP'', tdMode = ''cross'', o_side = ''sell'',
            ordType = ''market'', sz = 1, reduceOnly = True \<rparr>]"
  using no_same_cycle_flip [OF long_exchange_position long_position_fields(1)
          live_config_fields(1) example_signal_fields [of "''SELL''" "''LOW''"],
          where w = fresh_world]
  by (simp add: long_position_fields fresh_world_def)

text \<open>
  Claim C3 (open from flat) asks for one market buy of the configured size when the
  account is flat. On the account-only answer of the Position Oracle (no position, 100
  USDT) and a BUY signal of high confidence, in live mode, \<^verbatim>\<open>execute_trade\<close> returns
  with nothing sent: the test of the position's side raises \<^verbatim>\<open>KeyError\<close> on the
  account-only dictionary, and the handler swallows it. The counters are untouched.
\<close>

theorem flat_buy_submits_nothing:
  "execute_trade example_lib live_config (Some flat_exchange)
     (example_signal ''BUY'' ''HIGH'') (example_observation 50000) fresh_world
   = (None, fresh_world)"
  by (simp add: execute_trade_def flat_exchange_position example_signal_fields
        live_config_fields Let_def)

text \<open>
  With the account long one contract and a SELL signal, in live mode, the reduce-only
  sell of size 1 is sent and the exchange confirms it, and the persisted counters are
  what they were: \<^verbatim>\<open>total_trades\<close> is still 0.
\<close>

theorem close_leaves_counters:
  "submitted (snd (execute_trade example_lib live_config (Some long_exchange)
                     (example_signal ''SELL'' ''HIGH'') (example_observation 50000) fresh_world))
     = [\<lparr> instId = ''BTC-USDT-SWAP'', tdMode = ''cross'', o_side = ''sell'',
            ordType = ''market'', sz = 1, reduceOnly = True \<rparr>]
   \<and> map_option status
        (fst (create_market_order_safe long_exchange ''sell'' 1 True fresh_world))
       = Some ''filled''
   \<and> stats_file (snd (execute_trade example_lib live_config (Some long_exchange)
                     (example_signal ''SELL'' ''HIGH'') (example_observation 50000) fresh_world))
       = Some \<lparr> total_trades = 0, winning_trades = 0, losing_trades = 0, last_updated = None \<rparr>"
proof -
  have ex: "execute_trade example_lib live_config (Some long_exchange)
              (example_signal ''SELL'' ''HIGH'') (example_observation 50000) fresh_world
            = (None, snd (create_market_order_safe long_exchange ''sell'' 1 True fresh_world))"
    using execute_trade_long_sell [OF long_exchange_position long_position_fields(1)
            live_config_fields(1) example_signal_fields]
    by (simp add: long_position_fields)
  have st: "stats_file fresh_world
              = Some \<lparr> total_trades = 0, winning_trades = 0, losing_trades = 0,
                       last_updated = None \<rparr>"
    by (simp add: fresh_world_def fresh_stats_def)
  have sb: "submitted fresh_world = []" by (simp add: fresh_world_def)
  show ?thesis
    unfolding ex using long_exchange_order_filled st sb
    by (simp add: create_order_submitted create_order_stats)
qed

text \<open>
  Claim C4 (closing and the trade counters), as the code has it. For a long position of
  size 1 and a SELL signal, in live mode, one reduce-only sell order of size 1 is sent.
  \<^verbatim>\<open>execute_trade\<close> leaves the persisted counters as they were, in this run and in every
  other (closing or opening, filled or rejected). \<^verbatim>\<open>save_trade_stats\<close>, when its write
  succeeds, stores the record it is given with \<^verbatim>\<open>last_updated\<close> set and the three
  counters unchanged.
\<close>

theorem executor_never_counts:
  assumes "get_current_position lib cfg (Some ex) = Some (OpenPosition p)"
      and "side p = ''long''"
      and "psize p = 1"
      and "\<not> test_mode cfg"
      and "map_of signal_data ''signal'' = Some (PStr ''SELL'')"
      and "map_of signal_data ''confidence'' = Some conf"
      and "map_of signal_data ''reason'' = Some reason"
  shows "submitted (snd (execute_trade lib cfg (Some ex) signal_data price_data w))
           = submitted w @ [\<lparr> instId = ''BTC-USDT-SWAP'', tdMode = ''cross'',
                               o_side = ''sell'', ordType = ''market'', sz = 1,
                               reduceOnly = True \<rparr>]
       \<and> stats_file (snd (execute_trade lib cfg (Some ex) signal_data price_data w))
           = stats_file w
       \<and> (\<forall>lib' cfg' exch' signal' w'.
             stats_file (snd (execute_trade lib' cfg' exch' signal' price_data w'))
               = stats_file w')
       \<and> save_trade_stats now True stats w
           = (True, w \<lparr> stats_file := Some (stats \<lparr> last_updated := Some now \<rparr>) \<rparr>)"
  using assms(3)
  by (simp add: execute_trade_long_sell [OF assms(1,2,4,5,6,7)] create_order_submitted
        execute_trade_stats create_order_stats save_trade_stats_def)

theorem executor_never_counts_witness:
  "stats_file (snd (execute_trade example_lib live_config (Some long_exchange)
                     (example_signal ''SELL'' ''MEDIUM'') (example_observation 50000)
                     fresh_world))
     = stats_file fresh_world
   \<and> submitted (snd (execute_trade example_lib live_config (Some long_exchange)
                     (example_signal ''SELL'' ''MEDIUM'') (example_observation 50000)
                     fresh_world))
     = submitted fresh_world @
       [\<lparr> instId = ''BTC-USDT-SWAP'', tdMode = ''cross'', o_side = ''sell'',
           ordType = ''market'', sz = 1, reduceOnly = True \<rparr>]"
  using executor_never_counts [OF long_exchange_position long_position_fields
          live_config_fields(1) example_signal_fields [of "''SELL''" "''MEDIUM''"],
          where w = fresh_world]
  by simp

subsection \<open>The percent change of the market snapshot\<close>

lemma convert_candles_map:
  "convert_candles lib cs = Some ks \<longleftrightarrow> map (convert_candle lib) cs = map Some ks"
proof (induction cs arbitrary: ks)
  case Nil
  then show ?case by auto
next
  case (Cons c cs)
  show ?case
  proof (cases "convert_candle lib c")
    case None
    then show ?thesis by (cases ks) auto
  next
    case (Some k)
    then show ?thesis using Cons.IH by (cases ks) auto
  qed
qed

lemma convert_candles_rev:
  "convert_candles lib (rev cs) = Some ks \<Longrightarrow> convert_candles lib cs = Some (rev ks)"
  unfolding convert_candles_map by (metis rev_map rev_rev_ident)

lemma get_btc_ohlcv_Some:
  assumes "public_get_market_candles ex = Some (PDict response)"
      and "map_of response ''data'' = Some (PList candles)"
      and "convert_candles lib (rev candles) = Some ohlcv"
      and "get_btc_ohlcv lib now cfg (Some ex) = Some obs"
  shows "ohlcv \<noteq> []
       \<and> obs = \<lparr> price = k_close (last ohlcv), timestamp = now, high = k_high (last ohlcv),
                 low = k_low (last ohlcv), volume = k_volume (last ohlcv),
                 timeframe = cfg_timeframe cfg,
                 price_change = percent_change (k_close (last ohlcv))
                   (k_close (if length ohlcv > 1 then ohlcv ! (length ohlcv - 2)
                             else last ohlcv)),
                 kline_data = drop (length ohlcv - 5) ohlcv \<rparr>"
  using assms(4) unfolding get_btc_ohlcv_def
  by (simp add: assms(1,2,3) Let_def split: if_splits)

text \<open>
  Claim C8 (percent change), as the code has it. On a successful candle fetch the bars
  are the rows of the reply in reversed order, so oldest first when the exchange lists
  the newest first, and the price is the close of the last bar. With two or more bars
  the percent change is (close of the last bar - close of the bar before it) / close of
  the bar before it * 100; with a single bar the bar before is the bar itself and the
  change is exactly 0. Both hold when the divisor, the earlier close, is not zero; when
  it is zero the division yields a non-finite number, not 0 and not a failure.
\<close>

theorem percent_change_of_last_bars:
  assumes "public_get_market_candles ex = Some (PDict response)"
      and "map_of response ''data'' = Some (PList candles)"
      and "convert_candles lib (rev candles) = Some ohlcv"
      and "get_btc_ohlcv lib now cfg (Some ex) = Some obs"
  shows "ohlcv \<noteq> []
       \<and> convert_candles lib candles = Some (rev ohlcv)
       \<and> price obs = k_close (last ohlcv)
       \<and> (length ohlcv \<ge> 2 \<and> k_close (ohlcv ! (length ohlcv - 2)) \<noteq> 0 \<longrightarrow>
            price_change obs
              = Finite ((k_close (last ohlcv) - k_close (ohlcv ! (length ohlcv - 2)))
                          / k_close (ohlcv ! (length ohlcv - 2)) * 100))
       \<and> (length ohlcv < 2 \<and> k_close (last ohlcv) \<noteq> 0 \<longrightarrow> price_change obs = Finite 0)
       \<and> (length ohlcv \<ge> 2 \<and> k_close (ohlcv ! (length ohlcv - 2)) = 0 \<longrightarrow>
            price_change obs = NonFinite)
       \<and> (length ohlcv < 2 \<and> k_close (last ohlcv) = 0 \<longrightarrow> price_change obs = NonFinite)"
proof -
  from get_btc_ohlcv_Some [OF assms]
  have ne: "ohlcv \<noteq> []"
    and pc: "price_change obs = percent_change (k_close (last ohlcv))
                   (k_close (if length ohlcv > 1 then ohlcv ! (length ohlcv - 2)
                             else last ohlcv))"
    and pr: "price obs = k_close (last ohlcv)"
    by simp_all
  have rv: "convert_candles lib candles = Some (rev ohlcv)"
    by (rule convert_candles_rev [OF assms(3)])
  have two: "length ohlcv \<ge> 2 \<Longrightarrow> price_change obs
       = percent_change (k_close (last ohlcv)) (k_close (ohlcv ! (length ohlcv - 2)))"
    using pc by simp
  have one: "length ohlcv < 2 \<Longrightarrow> price_change obs
       = percent_change (k_close (last ohlcv)) (k_close (last ohlcv))"
    using pc by simp
  show ?thesis
    using ne rv pr two one by (auto simp: percent_change_def)
qed

lemma convert_candle_at:
  "dec_int t = Some ti \<Longrightarrow> dec_float c = Some cf \<Longrightarrow>
   convert_candle example_lib (candle_at t c)
     = Some \<lparr> k_timestamp = ti, k_open = cf, k_high = cf, k_low = cf, k_close = cf,
              k_volume = 1 \<rparr>"
  by (simp add: convert_candle_def candle_at_def dec_simps)

lemma convert_zero_candle:
  "convert_candle example_lib zero_candle
     = Some \<lparr> k_timestamp = 1700000000000, k_open = 0, k_high = 0, k_low = 0, k_close = 0,
              k_volume = 0 \<rparr>"
  by (simp add: convert_candle_def zero_candle_def dec_simps)

text \<open>
  A reply of one candle whose close is 0: the fetch succeeds and the percent change is
  not a number, not 0.
\<close>

theorem single_zero_close_not_zero_percent:
  "map_option price_change
     (get_btc_ohlcv example_lib ''2024-01-01 00:00:00'' live_config
        (Some (candle_exchange [zero_candle])))
   = Some NonFinite"
  by (simp add: get_btc_ohlcv_def candle_exchange_def convert_zero_candle example_lib_sel
        percent_change_def Let_def)

theorem percent_change_of_last_bars_witness:
  "map_option price_change
     (get_btc_ohlcv example_lib ''2024-01-01 00:00:00'' live_config
        (Some (candle_exchange [candle_at ''1700000900000'' ''110'',
                                candle_at ''1700000000000'' ''100''])))
   = Some (Finite 10)"
proof -
  let ?rows = "[candle_at ''1700000900000'' ''110'', candle_at ''1700000000000'' ''100'']"
  let ?old = "\<lparr> k_timestamp = 1700000000000, k_open = 100, k_high = 100, k_low = 100,
                 k_close = 100, k_volume = 1 \<rparr>"
  let ?new = "\<lparr> k_timestamp = 1700000900000, k_open = 110, k_high = 110, k_low = 110,
                 k_close = 110, k_volume = 1 \<rparr>"
  let ?obs = "\<lparr> price = 110, timestamp = ''2024-01-01 00:00:00'', high = 110, low = 110,
                 volume = 1, timeframe = ''15m'', price_change = percent_change 110 100,
                 kline_data = [?old, ?new] \<rparr>"
  have c1: "convert_candle example_lib (candle_at ''1700000000000'' ''100'') = Some ?old"
    by (rule convert_candle_at) (simp_all add: dec_simps)
  have c2: "convert_candle example_lib (candle_at ''1700000900000'' ''110'') = Some ?new"
    by (rule convert_candle_at) (simp_all add: dec_simps)
  have h1: "public_get_market_candles (candle_exchange ?rows)
              = Some (PDict [(''code'', PStr ''0''), (''data'', PList ?rows)])"
    by (simp add: candle_exchange_def)
  have h2: "map_of [(''code'', PStr ''0''), (''data'', PList ?rows)] ''data''
              = Some (PList ?rows)"
    by simp
  have h3: "convert_candles example_lib (rev ?rows) = Some [?old, ?new]"
    by (simp add: c1 c2)
  have h4: "get_btc_ohlcv example_lib ''2024-01-01 00:00:00'' live_config
              (Some (candle_exchange ?rows)) = Some ?obs"
    by (simp add: get_btc_ohlcv_def h1 c1 c2 example_lib_sel live_config_def Let_def)
  from percent_change_of_last_bars [OF h1 h2 h3 h4]
  have "price_change ?obs = Finite ((110 - 100) / 100 * 100)" by simp
  then show ?thesis unfolding h4 by simp
qed

subsection \<open>Drawdown of the equity curve\<close>

lemma drawdown_loop_snoc:
  "bs \<noteq> [] \<Longrightarrow> drawdown_loop (bs @ [x]) = drawdown_step x (drawdown_loop bs)"
  by (simp add: drawdown_loop_def)

lemma running_max_last: "bs \<noteq> [] \<Longrightarrow> running_max bs (length bs - 1) = Max (set bs)"
  by (simp add: running_max_def)

lemma running_max_snoc_old: "i < length bs \<Longrightarrow> running_max (bs @ [x]) i = running_max bs i"
  by (simp add: running_max_def)

lemma drawdown_at_snoc_old: "i < length bs \<Longrightarrow> drawdown_at (bs @ [x]) i = drawdown_at bs i"
  by (simp add: drawdown_at_def running_max_snoc_old nth_append)

lemma drawdown_at_snoc_new:
  "bs \<noteq> [] \<Longrightarrow> drawdown_at (bs @ [x]) (length bs) = round_drawdown x (max x (Max (set bs)))"
  by (simp add: drawdown_at_def running_max_def round_drawdown_def max.commute)

lemma drawdown_loop_spec:
  "bs \<noteq> [] \<Longrightarrow>
     drawdown_loop bs = (Max (set bs), Min (insert 0 (drawdown_at bs ` {..<length bs})))"
proof (induction bs rule: rev_nonempty_induct)
  case (single b)
  have "drawdown_at [b] 0 = 0" by (simp add: drawdown_at_def running_max_def)
  then show ?case
    by (simp add: drawdown_loop_def drawdown_step_def round_drawdown_def lessThan_Suc)
next
  case (snoc x bs)
  let ?S = "drawdown_at bs ` {..<length bs}"
  have img: "drawdown_at (bs @ [x]) ` {..<length (bs @ [x])}
               = insert (round_drawdown x (max x (Max (set bs)))) ?S"
  proof -
    have "drawdown_at (bs @ [x]) ` {..<length bs} = ?S"
      by (rule image_cong) (simp_all add: drawdown_at_snoc_old)
    then show ?thesis
      using snoc.hyps by (simp add: lessThan_Suc drawdown_at_snoc_new)
  qed
  have mx: "(if x > Max (set bs) then x else Max (set bs)) = max x (Max (set bs))"
    by (simp add: max_def)
  have mset: "Max (set (bs @ [x])) = max x (Max (set bs))"
    using snoc.hyps by (simp add: Max_insert)
  have mn: "Min (insert 0 (insert (round_drawdown x (max x (Max (set bs)))) ?S))
              = min (round_drawdown x (max x (Max (set bs)))) (Min (insert 0 ?S))"
  proof -
    have fin: "finite ?S" by simp
    have "0 \<in> {..<length bs}" using snoc.hyps by simp
    then have ne: "?S \<noteq> {}" by blast
    show ?thesis
      using fin ne by (simp add: Min_insert min.left_commute)
  qed
  define D where "D = Min (insert 0 ?S)"
  define d where "d = round_drawdown x (max x (Max (set bs)))"
  have step: "drawdown_step x (Max (set bs), D) = (max x (Max (set bs)), min d D)"
    by (auto simp: drawdown_step_def Let_def d_def max_def min_def)
  have "drawdown_loop (bs @ [x]) = drawdown_step x (Max (set bs), D)"
    unfolding drawdown_loop_snoc [OF snoc.hyps] snoc.IH D_def ..
  also have "\<dots> = (max x (Max (set bs)), min d D)" by (rule step)
  also have "\<dots> = (Max (set (bs @ [x])),
                      Min (insert 0 (drawdown_at (bs @ [x]) ` {..<length (bs @ [x])})))"
    unfolding img mset mn d_def D_def ..
  finally show ?case .
qed

lemma loop_after_take:
  "bs \<noteq> [] \<Longrightarrow> loop_after bs i = drawdown_loop (take (Suc i) bs)"
  by (cases bs) (simp_all add: loop_after_def drawdown_loop_def)

lemma drawdown_at_take:
  "j \<le> i \<Longrightarrow> drawdown_at (take (Suc i) bs) j = drawdown_at bs j"
  by (simp add: drawdown_at_def running_max_def min_def)

lemma loop_after_spec:
  assumes "i < length bs"
  shows "loop_after bs i = (running_max bs i, Min (insert 0 (drawdown_at bs ` {..i})))"
proof -
  from assms have ne: "bs \<noteq> []" "take (Suc i) bs \<noteq> []" by auto
  have len: "length (take (Suc i) bs) = Suc i" using assms by simp
  have "drawdown_at (take (Suc i) bs) ` {..<Suc i} = drawdown_at bs ` {..i}"
    by (rule image_cong) (auto simp: drawdown_at_take)
  then show ?thesis
    unfolding loop_after_take [OF ne(1)] drawdown_loop_spec [OF ne(2)] len
    by (simp add: running_max_def)
qed

lemma summary_max_drawdown:
  assumes "equity_data \<noteq> []"
  shows "max_drawdown (equity_summary equity_data current_position base_usdt)
           = round2 (snd (drawdown_loop (map balance equity_data
                                          @ [live_balance equity_data current_position])))"
  using assms
  by (simp add: equity_summary_def Let_def drawdown_loop_snoc drawdown_step_def
        split: prod.split)

lemma balances_equity_of: "map balance (equity_of bs) = bs"
  by (induction bs) (simp_all add: equity_of_def)

lemma live_balance_no_position:
  "bs \<noteq> [] \<Longrightarrow> live_balance (equity_of bs) None = last bs"
  by (simp add: live_balance_def equity_of_def last_map)

lemma example_running_max:
  "map (\<lambda>i. fst (loop_after [100, 120, 90, 130] i)) [0, 1, 2, 3] = [100, 120, 120, 130]"
  by (simp add: loop_after_def drawdown_step_def round_drawdown_def eval_nat_numeral)

lemma example_max_drawdown:
  "max_drawdown (equity_summary (equity_of [100, 120, 90, 130]) None None) = - 25"
proof -
  have "drawdown_loop ([100, 120, 90, 130] @ [130]) = (130, - 25)"
    by (simp add: drawdown_loop_def drawdown_step_def round_drawdown_def)
  moreover have "round2 (- 25) = - 25"
    by (simp add: round2_def round_half_even_def)
  moreover have "equity_of [100, 120, 90, 130] \<noteq> []" by (simp add: equity_of_def)
  ultimately show ?thesis
    by (simp add: summary_max_drawdown balances_equity_of live_balance_no_position)
qed

text \<open>
  Claim C9 (drawdown), as the code has it. For a non-empty equity series, after the
  round for index \<open>i\<close> the loop holds the greatest balance up to \<open>i\<close>; the drawdown it
  computes there is (balance - running maximum) / running maximum * 100 when the running
  maximum is positive and 0 otherwise; and its running minimum is the least of 0 and the
  drawdowns so far. The figure in the reply is the least of 0 and the drawdowns of the
  series extended by the live balance, rounded to two decimals. For the balances 100,
  120, 90, 130 the running maxima are 100, 120, 120, 130 and, with no position and no
  live balance from the exchange, the reported maximum drawdown is -25.
\<close>

theorem drawdown_statistics:
  assumes "equity_data \<noteq> []"
      and "balances = map balance equity_data"
      and "live = live_balance equity_data current_position"
  shows "(\<forall>i<length balances.
            fst (loop_after balances i) = running_max balances i
          \<and> round_drawdown (balances ! i) (fst (loop_after balances i)) = drawdown_at balances i
          \<and> snd (loop_after balances i) = Min (insert 0 (drawdown_at balances ` {..i})))
       \<and> max_drawdown (equity_summary equity_data current_position base_usdt)
           = round2 (Min (insert 0 (drawdown_at (balances @ [live]) ` {..length balances})))
       \<and> map (\<lambda>i. fst (loop_after [100, 120, 90, 130] i)) [0, 1, 2, 3] = [100, 120, 120, 130]
       \<and> max_drawdown (equity_summary (equity_of [100, 120, 90, 130]) None None) = - 25"
proof -
  have a: "\<And>i. i < length balances \<Longrightarrow>
            fst (loop_after balances i) = running_max balances i
          \<and> round_drawdown (balances ! i) (fst (loop_after balances i)) = drawdown_at balances i
          \<and> snd (loop_after balances i) = Min (insert 0 (drawdown_at balances ` {..i}))"
    by (simp add: loop_after_spec drawdown_at_def round_drawdown_def)
  have ne: "balances @ [live] \<noteq> []" by simp
  have "{..<length (balances @ [live])} = {..length balances}" by auto
  then have b: "max_drawdown (equity_summary equity_data current_position base_usdt)
           = round2 (Min (insert 0 (drawdown_at (balances @ [live]) ` {..length balances})))"
    unfolding summary_max_drawdown [OF assms(1)] assms(2) [symmetric] assms(3) [symmetric]
      drawdown_loop_spec [OF ne]
    by simp
  show ?thesis
    using a b example_running_max example_max_drawdown by blast
qed

theorem drawdown_statistics_witness:
  "max_drawdown (equity_summary (equity_of [100, 120, 90, 130]) None None)
     = round2 (Min (insert 0 (drawdown_at ([100, 120, 90, 130] @ [130])
                                ` {..length [100, 120, 90, 130 :: real]})))"
proof -
  have ne: "equity_of [100, 120, 90, 130] \<noteq> []" by (simp add: equity_of_def)
  have bs: "[100, 120, 90, 130] = map balance (equity_of [100, 120, 90, 130])"
    by (simp add: balances_equity_of)
  have lv: "130 = live_balance (equity_of [100, 120, 90, 130]) None"
    by (simp add: live_balance_no_position)
  from drawdown_statistics [OF ne bs lv, of None]
  show ?thesis by simp
qed

text \<open>
  Where the formula and the code part: at the balance -20 under a running maximum of -10
  the code's drawdown is 0 while the formula gives 100; and for the balances 3, 2 the
  reply reports -33.33, which is not (2 - 3) / 3 * 100.
\<close>

theorem drawdown_guard_and_rounding:
  "round_drawdown (- 20) (fst (loop_after [- 10, - 20] 1)) = 0
   \<and> (- 20 - running_max [- 10, - 20] 1) / running_max [- 10, - 20] 1 * 100 = 100
   \<and> max_drawdown (equity_summary (equity_of [3, 2]) None None) = - 3333 / 100
   \<and> (2 - 3) / 3 * 100 \<noteq> (- 3333 / 100 :: real)"
proof -
  have l: "fst (loop_after [- 10, - 20] 1) = - 10"
    by (simp add: loop_after_def drawdown_step_def round_drawdown_def)
  have r: "running_max [- 10, - 20] 1 = - 10"
    by (simp add: running_max_def)
  have "drawdown_loop ([3, 2] @ [2]) = (3, - 100 / 3)"
    by (simp add: drawdown_loop_def drawdown_step_def round_drawdown_def)
  moreover have "round2 (- 100 / 3) = - 3333 / 100"
    by (simp add: round2_def round_half_even_def)
  moreover have "equity_of [3, 2] \<noteq> []" by (simp add: equity_of_def)
  ultimately have m: "max_drawdown (equity_summary (equity_of [3, 2]) None None) = - 3333 / 100"
    by (simp add: summary_max_drawdown balances_equity_of live_balance_no_position)
  show ?thesis
    unfolding l r using m by (simp add: round_drawdown_def)
qed

subsection \<open>Balances reported by the Position Oracle\<close>

lemma chain_value:
  assumes "(if py_or (py_or a b) c \<noteq> PNone then pyfloat lib (py_or (py_or a b) c)
            else pyfloat lib dflt) = Some v"
  shows "(truthy a \<longrightarrow> pyfloat lib a = Some v)
       \<and> (\<not> truthy a \<and> truthy b \<longrightarrow> pyfloat lib b = Some v)
       \<and> (\<not> truthy a \<and> \<not> truthy b \<and> truthy c \<longrightarrow> pyfloat lib c = Some v)
       \<and> (a = PNone \<and> b = PNone \<and> c = PNone \<longrightarrow> pyfloat lib dflt = Some v)"
  using assms by (auto simp: py_or_def split: if_splits)

lemma chain_zero:
  assumes "a = PNone \<or> pyfloat lib a = Some 0" "b = PNone \<or> pyfloat lib b = Some 0"
    "c = PNone \<or> pyfloat lib c = Some 0" "pyfloat lib dflt = Some 0"
  shows "(if py_or (py_or a b) c \<noteq> PNone then pyfloat lib (py_or (py_or a b) c)
          else pyfloat lib dflt) = Some 0"
  using assms by (auto simp: py_or_def)

lemma detail_balances_Some:
  "detail_balances lib d = Some (v, w) \<longleftrightarrow>
     (if py_or (py_or (py_get d ''availBal'') (py_get d ''availEq'')) (py_get d ''eq'') \<noteq> PNone
      then pyfloat lib (py_or (py_or (py_get d ''availBal'') (py_get d ''availEq'')) (py_get d ''eq''))
      else pyfloat lib (py_get_default d ''availBal'' (PNum 0))) = Some v
   \<and> (if py_or (py_or (py_get d ''bal'') (py_get d ''eq'')) (py_get d ''frozenBal'') \<noteq> PNone
      then pyfloat lib (py_or (py_or (py_get d ''bal'') (py_get d ''eq'')) (py_get d ''frozenBal''))
      else pyfloat lib (py_get_default d ''bal'' (PNum 0))) = Some w"
  unfolding detail_balances_def Let_def
  by (simp split: option.split)

lemma detail_free_chain:
  assumes "detail_balances lib d = Some (v, w)"
  shows "(truthy (py_get d ''availBal'') \<longrightarrow> pyfloat lib (py_get d ''availBal'') = Some v)
       \<and> (\<not> truthy (py_get d ''availBal'') \<and> truthy (py_get d ''availEq'')
            \<longrightarrow> pyfloat lib (py_get d ''availEq'') = Some v)
       \<and> (\<not> truthy (py_get d ''availBal'') \<and> \<not> truthy (py_get d ''availEq'')
            \<and> truthy (py_get d ''eq'') \<longrightarrow> pyfloat lib (py_get d ''eq'') = Some v)
       \<and> (map_of d ''availBal'' = None \<and> map_of d ''availEq'' = None \<and> map_of d ''eq'' = None
            \<longrightarrow> v = 0)"
proof -
  define a where "a = py_get d ''availBal''"
  define b where "b = py_get d ''availEq''"
  define c where "c = py_get d ''eq''"
  define dflt where "dflt = py_get_default d ''availBal'' (PNum 0)"
  from assms have "(if py_or (py_or a b) c \<noteq> PNone then pyfloat lib (py_or (py_or a b) c)
            else pyfloat lib dflt) = Some v"
    unfolding detail_balances_Some a_def b_def c_def dflt_def by blast
  from chain_value [OF this]
  have ch: "(truthy a \<longrightarrow> pyfloat lib a = Some v)
       \<and> (\<not> truthy a \<and> truthy b \<longrightarrow> pyfloat lib b = Some v)
       \<and> (\<not> truthy a \<and> \<not> truthy b \<and> truthy c \<longrightarrow> pyfloat lib c = Some v)
       \<and> (a = PNone \<and> b = PNone \<and> c = PNone \<longrightarrow> pyfloat lib dflt = Some v)" .
  have absent: "map_of d ''availBal'' = None \<and> map_of d ''availEq'' = None \<and> map_of d ''eq'' = None
     \<Longrightarrow> a = PNone \<and> b = PNone \<and> c = PNone \<and> dflt = PNum 0"
    unfolding a_def b_def c_def dflt_def py_get_def py_get_default_def by simp
  show ?thesis
    using ch absent unfolding a_def [symmetric] b_def [symmetric] c_def [symmetric]
    by auto
qed

lemma absent_or_zero_get:
  "absent_or_zero lib d k \<Longrightarrow> py_get d k = PNone \<or> pyfloat lib (py_get d k) = Some 0"
  by (auto simp: absent_or_zero_def py_get_def split: option.splits)

lemma absent_or_zero_default:
  "absent_or_zero lib d k \<Longrightarrow> pyfloat lib (py_get_default d k (PNum 0)) = Some 0"
  by (auto simp: absent_or_zero_def py_get_default_def split: option.splits)

lemma absent_or_zero_fallback:
  "absent_or_zero lib d k \<Longrightarrow>
     (if x = 0 \<and> truthy (py_get d k) then pyfloat lib (py_get d k) else Some x)
       = Some (x :: real)"
  using absent_or_zero_get [of lib d k] by auto

lemma detail_zero:
  assumes "absent_or_zero lib d ''availBal''" "absent_or_zero lib d ''availEq''"
    "absent_or_zero lib d ''eq''" "absent_or_zero lib d ''bal''" "absent_or_zero lib d ''frozenBal''"
  shows "detail_balances lib d = Some (0, 0)"
  unfolding detail_balances_Some
  using chain_zero [OF absent_or_zero_get [OF assms(1)] absent_or_zero_get [OF assms(2)]
          absent_or_zero_get [OF assms(3)] absent_or_zero_default [OF assms(1)]]
        chain_zero [OF absent_or_zero_get [OF assms(4)] absent_or_zero_get [OF assms(3)]
          absent_or_zero_get [OF assms(5)] absent_or_zero_default [OF assms(4)]]
  by blast

lemma scan_details_zero:
  assumes "\<forall>d\<in>set ds. \<exists>dd. d = PDict dd \<and>
             (py_get dd ''ccy'' = PStr ''USDT'' \<longrightarrow>
                absent_or_zero lib dd ''availBal'' \<and> absent_or_zero lib dd ''availEq''
              \<and> absent_or_zero lib dd ''eq'' \<and> absent_or_zero lib dd ''bal''
              \<and> absent_or_zero lib dd ''frozenBal'')"
  shows "scan_details lib ds = Some (0, 0)"
  using assms
proof (induction ds)
  case Nil
  then show ?case by simp
next
  case (Cons d ds)
  then obtain dd where d: "d = PDict dd" by auto
  show ?case
  proof (cases "py_get dd ''ccy'' = PStr ''USDT''")
    case True
    with Cons.prems d have "detail_balances lib dd = Some (0, 0)"
      by (intro detail_zero) auto
    with True d show ?thesis by simp
  next
    case False
    with Cons d show ?thesis by simp
  qed
qed

lemma scan_details_first:
  assumes "\<forall>d\<in>set before. \<exists>dd. d = PDict dd \<and> py_get dd ''ccy'' \<noteq> PStr ''USDT''"
      and "py_get detail ''ccy'' = PStr ''USDT''"
  shows "scan_details lib (before @ PDict detail # rest) = detail_balances lib detail"
  using assms(1)
proof (induction before)
  case Nil
  show ?case using assms(2) by simp
next
  case (Cons d ds)
  then obtain dd where "d = PDict dd" "py_get dd ''ccy'' \<noteq> PStr ''USDT''" by auto
  with Cons show ?case by simp
qed

lemma account_balances_shape:
  assumes "map_of balance_response ''data'' = Some (PList (PDict account_data # others))"
      and "py_get_default account_data ''details'' (PList []) = PList ds"
  shows "account_balances lib (Some (PDict balance_response))
           = (case scan_details lib ds of
                None \<Rightarrow> None
              | Some (fb0, tb0) \<Rightarrow>
                  (case (if fb0 = 0 \<and> truthy (py_get account_data ''availEq'')
                         then pyfloat lib (py_get account_data ''availEq'') else Some fb0) of
                     None \<Rightarrow> None
                   | Some fb \<Rightarrow>
                       (case (if tb0 = 0 \<and> truthy (py_get account_data ''eqUsd'')
                              then pyfloat lib (py_get account_data ''eqUsd'') else Some tb0) of
                          None \<Rightarrow> None
                        | Some tb \<Rightarrow> Some (fb, tb))))"
  unfolding account_balances_def by (simp add: assms)

lemma account_balances_free:
  assumes "map_of balance_response ''data'' = Some (PList (PDict account_data # others))"
      and "py_get_default account_data ''details'' (PList []) = PList ds"
      and "account_balances lib (Some (PDict balance_response)) = Some (fb, tb)"
  shows "\<exists>v w. scan_details lib ds = Some (v, w)
           \<and> (v \<noteq> 0 \<longrightarrow> fb = v)
           \<and> (v = 0 \<and> \<not> truthy (py_get account_data ''availEq'') \<longrightarrow> fb = 0)"
proof -
  define A where "A = py_get account_data ''availEq''"
  define E where "E = py_get account_data ''eqUsd''"
  from assms(3) obtain v w where sd: "scan_details lib ds = Some (v, w)"
    and f: "(if v = 0 \<and> truthy A then pyfloat lib A else Some v) = Some fb"
    unfolding account_balances_shape [OF assms(1,2)] A_def
    by (auto split: option.splits prod.splits)
  from f have "(v \<noteq> 0 \<longrightarrow> fb = v) \<and> (v = 0 \<and> \<not> truthy A \<longrightarrow> fb = 0)"
    by (auto split: if_splits)
  with sd show ?thesis unfolding A_def by blast
qed

lemma account_balances_zero:
  assumes "map_of balance_response ''data'' = Some (PList (PDict account_data # others))"
      and "py_get_default account_data ''details'' (PList []) = PList ds"
      and "scan_details lib ds = Some (0, 0)"
      and "absent_or_zero lib account_data ''availEq''"
      and "absent_or_zero lib account_data ''eqUsd''"
  shows "account_balances lib (Some (PDict balance_response)) = Some (0, 0)"
  unfolding account_balances_shape [OF assms(1,2)] assms(3)
  using absent_or_zero_fallback [OF assms(4), of 0] absent_or_zero_fallback [OF assms(5), of 0]
  by simp

lemma build_position_balances:
  "build_position lib cfg fb tb pos_data pos = Some p \<Longrightarrow>
     free_balance p = fb \<and> total_balance p = tb"
  unfolding build_position_def
  by (auto split: option.splits)

lemma scan_positions_balances:
  "scan_positions lib cfg fb tb rows = Some r \<Longrightarrow>
     info_free_balance r = fb \<and> info_total_balance r = tb"
proof (induction rows)
  case Nil
  then show ?case by auto
next
  case (Cons row rows)
  show ?case
  proof (cases row)
    case (PDict pos_data)
    show ?thesis
    proof (cases "py_get pos_data ''instId'' = PStr ''BTC-USDT-SWAP''")
      case True
      then show ?thesis
        using Cons PDict
        by (auto split: option.splits if_splits dest: build_position_balances)
    next
      case False
      then show ?thesis using Cons PDict by simp
    qed
  qed (use Cons in simp_all)
qed

lemma scan_positions_none_open:
  assumes "\<forall>row\<in>set rows. \<exists>p. row = PDict p \<and>
             (py_get p ''instId'' \<noteq> PStr ''BTC-USDT-SWAP''
              \<or> pyfloat lib (py_get_default p ''pos'' (PNum 0)) = Some 0)"
  shows "scan_positions lib cfg fb tb rows = Some (AccountInfoOnly tb fb)"
  using assms
proof (induction rows)
  case Nil
  then show ?case by simp
next
  case (Cons row rows)
  then obtain p where "row = PDict p"
    "py_get p ''instId'' \<noteq> PStr ''BTC-USDT-SWAP''
       \<or> pyfloat lib (py_get_default p ''pos'' (PNum 0)) = Some 0" by auto
  with Cons show ?case by auto
qed

lemma get_current_position_shape:
  assumes "private_get_account_positions ex = Some (PDict response)"
      and "map_of response ''data'' = Some (PList rows)"
  shows "get_current_position lib cfg (Some ex)
           = (case account_balances lib (private_get_account_balance ex) of
                None \<Rightarrow> None
              | Some (fb, tb) \<Rightarrow> scan_positions lib cfg fb tb rows)"
  unfolding get_current_position_def by (simp add: assms)

text \<open>
  Claim C6 (a zero balance is not a failure). Let the exchange answer both requests with
  well-formed replies. First: when no row of the instrument holds a non-zero quantity and
  every balance field consulted (the five of the USDT entry and the two of the account)
  is missing or converts to 0, the Position Oracle returns the account-only result with
  both balances 0, not its error result. Second: whenever the oracle returns a result,
  the value \<open>v\<close> read from the first USDT entry is that of \<^verbatim>\<open>availBal\<close> when it is truthy,
  else that of \<^verbatim>\<open>availEq\<close> when it is truthy, else that of \<^verbatim>\<open>eq\<close> when it is truthy, and
  0 when all three keys are missing; the reported free balance is \<open>v\<close> when \<open>v\<close> is not
  0, and it is 0 when \<open>v\<close> is 0 and the account has no usable \<^verbatim>\<open>availEq\<close> either.
\<close>

theorem balance_zero_is_not_failure:
  assumes "private_get_account_positions ex = Some (PDict response)"
      and "map_of response ''data'' = Some (PList rows)"
      and "private_get_account_balance ex = Some (PDict balance_response)"
      and "map_of balance_response ''data'' = Some (PList (PDict account_data # others))"
      and "py_get_default account_data ''details'' (PList []) = PList details"
  shows "((\<forall>row\<in>set rows. \<exists>p. row = PDict p \<and>
             (py_get p ''instId'' \<noteq> PStr ''BTC-USDT-SWAP''
              \<or> pyfloat lib (py_get_default p ''pos'' (PNum 0)) = Some 0))
          \<and> (\<forall>d\<in>set details. \<exists>dd. d = PDict dd \<and>
                (py_get dd ''ccy'' = PStr ''USDT'' \<longrightarrow>
                   absent_or_zero lib dd ''availBal'' \<and> absent_or_zero lib dd ''availEq''
                 \<and> absent_or_zero lib dd ''eq'' \<and> absent_or_zero lib dd ''bal''
                 \<and> absent_or_zero lib dd ''frozenBal''))
          \<and> absent_or_zero lib account_data ''availEq''
          \<and> absent_or_zero lib account_data ''eqUsd''
          \<longrightarrow> get_current_position lib cfg (Some ex) = Some (AccountInfoOnly 0 0))
       \<and> (\<forall>before detail rest r.
             details = before @ PDict detail # rest
           \<and> (\<forall>d\<in>set before. \<exists>dd. d = PDict dd \<and> py_get dd ''ccy'' \<noteq> PStr ''USDT'')
           \<and> py_get detail ''ccy'' = PStr ''USDT''
           \<and> get_current_position lib cfg (Some ex) = Some r
           \<longrightarrow> (\<exists>v. (truthy (py_get detail ''availBal'')
                         \<longrightarrow> pyfloat lib (py_get detail ''availBal'') = Some v)
                    \<and> (\<not> truthy (py_get detail ''availBal'')
                         \<and> truthy (py_get detail ''availEq'')
                         \<longrightarrow> pyfloat lib (py_get detail ''availEq'') = Some v)
                    \<and> (\<not> truthy (py_get detail ''availBal'')
                         \<and> \<not> truthy (py_get detail ''availEq'')
                         \<and> truthy (py_get detail ''eq'')
                         \<longrightarrow> pyfloat lib (py_get detail ''eq'') = Some v)
                    \<and> (map_of detail ''availBal'' = None \<and> map_of detail ''availEq'' = None
                         \<and> map_of detail ''eq'' = None \<longrightarrow> v = 0)
                    \<and> (v \<noteq> 0 \<longrightarrow> info_free_balance r = v)
                    \<and> (v = 0 \<and> \<not> truthy (py_get account_data ''availEq'')
                         \<longrightarrow> info_free_balance r = 0)))"
proof (intro conjI impI allI)
  assume h: "(\<forall>row\<in>set rows. \<exists>p. row = PDict p \<and>
             (py_get p ''instId'' \<noteq> PStr ''BTC-USDT-SWAP''
              \<or> pyfloat lib (py_get_default p ''pos'' (PNum 0)) = Some 0))
          \<and> (\<forall>d\<in>set details. \<exists>dd. d = PDict dd \<and>
                (py_get dd ''ccy'' = PStr ''USDT'' \<longrightarrow>
                   absent_or_zero lib dd ''availBal'' \<and> absent_or_zero lib dd ''availEq''
                 \<and> absent_or_zero lib dd ''eq'' \<and> absent_or_zero lib dd ''bal''
                 \<and> absent_or_zero lib dd ''frozenBal''))
          \<and> absent_or_zero lib account_data ''availEq''
          \<and> absent_or_zero lib account_data ''eqUsd''"
  then have sd: "scan_details lib details = Some (0, 0)"
    by (intro scan_details_zero) blast
  have ab: "account_balances lib (Some (PDict balance_response)) = Some (0, 0)"
    using h by (intro account_balances_zero [OF assms(4,5) sd]) blast+
  have sp: "scan_positions lib cfg 0 0 rows = Some (AccountInfoOnly 0 0)"
    using h by (intro scan_positions_none_open) blast
  show "get_current_position lib cfg (Some ex) = Some (AccountInfoOnly 0 0)"
    unfolding get_current_position_shape [OF assms(1,2)] assms(3) ab using sp by simp
next
  fix before detail rest r
  assume h: "details = before @ PDict detail # rest
           \<and> (\<forall>d\<in>set before. \<exists>dd. d = PDict dd \<and> py_get dd ''ccy'' \<noteq> PStr ''USDT'')
           \<and> py_get detail ''ccy'' = PStr ''USDT''
           \<and> get_current_position lib cfg (Some ex) = Some r"
  then obtain fb tb where ab: "account_balances lib (Some (PDict balance_response)) = Some (fb, tb)"
    and sp: "scan_positions lib cfg fb tb rows = Some r"
    unfolding get_current_position_shape [OF assms(1,2)] assms(3)
    by (auto split: option.splits prod.splits)
  from scan_positions_balances [OF sp] have fr: "info_free_balance r = fb" by simp
  from account_balances_free [OF assms(4,5) ab]
  obtain v w where sd: "scan_details lib details = Some (v, w)"
    and f1: "v \<noteq> 0 \<longrightarrow> fb = v"
    and f2: "v = 0 \<and> \<not> truthy (py_get account_data ''availEq'') \<longrightarrow> fb = 0"
    by blast
  have "scan_details lib details = detail_balances lib detail"
    using h scan_details_first [of before detail lib rest] by blast
  with sd have db: "detail_balances lib detail = Some (v, w)" by simp
  from detail_free_chain [OF db] f1 f2 fr
  show "\<exists>v. (truthy (py_get detail ''availBal'')
                         \<longrightarrow> pyfloat lib (py_get detail ''availBal'') = Some v)
                    \<and> (\<not> truthy (py_get detail ''availBal'')
                         \<and> truthy (py_get detail ''availEq'')
                         \<longrightarrow> pyfloat lib (py_get detail ''availEq'') = Some v)
                    \<and> (\<not> truthy (py_get detail ''availBal'')
                         \<and> \<not> truthy (py_get detail ''availEq'')
                         \<and> truthy (py_get detail ''eq'')
                         \<longrightarrow> pyfloat lib (py_get detail ''eq'') = Some v)
                    \<and> (map_of detail ''availBal'' = None \<and> map_of detail ''availEq'' = None
                         \<and> map_of detail ''eq'' = None \<longrightarrow> v = 0)
                    \<and> (v \<noteq> 0 \<longrightarrow> info_free_balance r = v)
                    \<and> (v = 0 \<and> \<not> truthy (py_get account_data ''availEq'')
                         \<longrightarrow> info_free_balance r = 0)"
    by (intro exI [of _ v]) simp
qed

theorem balance_zero_is_not_failure_witness:
  "get_current_position example_lib live_config (Some zero_exchange)
     = Some (AccountInfoOnly 0 0)
   \<and> (\<exists>v. pyfloat example_lib (PStr ''100'') = Some v
          \<and> (v \<noteq> 0 \<longrightarrow> info_free_balance (AccountInfoOnly 100 100) = v))"
proof
  let ?zero = "[(''ccy'', PStr ''USDT''), (''availBal'', PStr ''0''), (''availEq'', PStr ''0''),
                (''eq'', PStr ''0''), (''bal'', PStr ''0''), (''frozenBal'', PStr ''0'')]"
  let ?acct = "[(''details'', PList [PDict ?zero])]"
  have p1: "private_get_account_positions zero_exchange
              = Some (PDict [(''code'', PStr ''0''), (''data'', PList [])])"
    by (simp add: zero_exchange_def positions_reply_def)
  have p2: "map_of [(''code'', PStr ''0''), (''data'', PList [])] ''data'' = Some (PList [])"
    by simp
  have b1: "private_get_account_balance zero_exchange
              = Some (PDict [(''code'', PStr ''0''), (''data'', PList [PDict ?acct])])"
    by (simp add: zero_exchange_def balance_reply_def)
  have b2: "map_of [(''code'', PStr ''0''), (''data'', PList [PDict ?acct])] ''data''
              = Some (PList (PDict ?acct # []))"
    by simp
  have b3: "py_get_default ?acct ''details'' (PList []) = PList [PDict ?zero]"
    by (simp add: py_get_default_def)
  have z: "absent_or_zero example_lib ?zero ''availBal''"
      "absent_or_zero example_lib ?zero ''availEq''"
      "absent_or_zero example_lib ?zero ''eq''"
      "absent_or_zero example_lib ?zero ''bal''"
      "absent_or_zero example_lib ?zero ''frozenBal''"
      "absent_or_zero example_lib ?acct ''availEq''"
      "absent_or_zero example_lib ?acct ''eqUsd''"
    by (simp_all add: absent_or_zero_def dec_simps)
  from balance_zero_is_not_failure [OF p1 p2 b1 b2 b3, of example_lib live_config]
  show "get_current_position example_lib live_config (Some zero_exchange)
          = Some (AccountInfoOnly 0 0)"
    using z by simp
next
  let ?usdt = "[(''ccy'', PStr ''USDT''), (''availBal'', PStr ''100''), (''bal'', PStr ''100'')]"
  let ?acct = "[(''details'', PList [PDict ?usdt])]"
  have p1: "private_get_account_positions flat_exchange
              = Some (PDict [(''code'', PStr ''0''), (''data'', PList [])])"
    by (simp add: flat_exchange_def positions_reply_def)
  have p2: "map_of [(''code'', PStr ''0''), (''data'', PList [])] ''data'' = Some (PList [])"
    by simp
  have b1: "private_get_account_balance flat_exchange
              = Some (PDict [(''code'', PStr ''0''), (''data'', PList [PDict ?acct])])"
    by (simp add: flat_exchange_def balance_reply_def)
  have b2: "map_of [(''code'', PStr ''0''), (''data'', PList [PDict ?acct])] ''data''
              = Some (PList (PDict ?acct # []))"
    by simp
  have b3: "py_get_default ?acct ''details'' (PList []) = PList [PDict ?usdt]"
    by (simp add: py_get_default_def)
  have g: "py_get ?usdt ''availBal'' = PStr ''100''" "py_get ?usdt ''ccy'' = PStr ''USDT''"
    by (simp_all add: py_get_def)
  from balance_zero_is_not_failure [OF p1 p2 b1 b2 b3, of example_lib live_config]
  have "\<forall>before detail rest r.
          [PDict ?usdt] = before @ PDict detail # rest
        \<and> (\<forall>d\<in>set before. \<exists>dd. d = PDict dd \<and> py_get dd ''ccy'' \<noteq> PStr ''USDT'')
        \<and> py_get detail ''ccy'' = PStr ''USDT''
        \<and> get_current_position example_lib live_config (Some flat_exchange) = Some r
        \<longrightarrow> (\<exists>v. (truthy (py_get detail ''availBal'')
                      \<longrightarrow> pyfloat example_lib (py_get detail ''availBal'') = Some v)
                 \<and> (v \<noteq> 0 \<longrightarrow> info_free_balance r = v))"
    by blast
  from this [rule_format, of "[]" ?usdt "[]" "AccountInfoOnly 100 100"]
  show "\<exists>v. pyfloat example_lib (PStr ''100'') = Some v
          \<and> (v \<noteq> 0 \<longrightarrow> info_free_balance (AccountInfoOnly 100 100) = v)"
    using flat_exchange_position g by simp
qed


end
